theory Spec2Isabelle
  imports Main
begin

section \<open>Identifiers, JavaScript truthiness, errors\<close>

type_synonym user_id = string
type_synonym socket_id = string
type_synonym group_id = string

text \<open>
  The source tests nullable strings by truthiness (\<^verbatim>\<open>if (socketId)\<close>,
  \<^verbatim>\<open>if (!fromUserId)\<close>, \<^verbatim>\<open>!styleProfile.stylePrompt\<close>, \<^verbatim>\<open>if (content)\<close>):
  \<^verbatim>\<open>null\<close>, \<^verbatim>\<open>undefined\<close> and the empty string are falsy, every other string is truthy.
\<close>

fun truthy :: "string option \<Rightarrow> bool" where
  "truthy None = False"
| "truthy (Some s) = (s \<noteq> [])"

text \<open>
  A rejected promise is a value: \<open>Inl\<close> of the error. \<open>await\<close> sequences two
  asynchronous steps the way \<^verbatim>\<open>const x = await f(); ...\<close> does, the rejection of the
  first skipping the rest.
\<close>

datatype error = DatabaseError | NotFoundException

definition await :: "error + 'a \<Rightarrow> ('a \<Rightarrow> error + 'b) \<Rightarrow> error + 'b" where
  "await r k = (case r of Inl e \<Rightarrow> Inl e | Inr x \<Rightarrow> k x)"

section \<open>Presence registry: \<^verbatim>\<open>gateway/redis.service.ts\<close>\<close>

text \<open>
  The external key-value store is a map from keys to string values. The field
  \<^verbatim>\<open>private redis: Redis | null\<close> is an optional store: \<open>None\<close> when the constructor
  left it \<^verbatim>\<open>null\<close>. Keys expire after 86400 seconds; time does not pass in this model,
  and a store call is taken to return (a rejected call is caught and logged by the
  service and leaves the store as it was).
\<close>

type_synonym kv_store = "string \<rightharpoonup> string"
type_synonym redis_service = "kv_store option"

definition user_key :: "user_id \<Rightarrow> string" where
  "user_key userId = ''user:'' @ userId @ '':socket''"

definition socket_key :: "socket_id \<Rightarrow> string" where
  "socket_key socketId = ''socket:'' @ socketId @ '':user''"

text \<open>
  The constructor reads the two environment variables; \<open>client\<close> is what
  \<^verbatim>\<open>new Redis({ url, token })\<close> gives: the store it is attached to, or \<open>None\<close> when
  it throws.
\<close>

definition redis_constructor ::
  "string option \<Rightarrow> string option \<Rightarrow> kv_store option \<Rightarrow> redis_service" where
  "redis_constructor url token client =
     (if \<not> truthy url \<or> \<not> truthy token then None
      else if take 8 (the url) \<noteq> ''https://'' then None
      else client)"

definition setUserOnline :: "redis_service \<Rightarrow> user_id \<Rightarrow> socket_id \<Rightarrow> redis_service" where
  "setUserOnline r userId socketId =
     (case r of
        None \<Rightarrow> None
      | Some kv \<Rightarrow> Some ((kv(user_key userId \<mapsto> socketId))(socket_key socketId \<mapsto> userId)))"

definition setUserOffline :: "redis_service \<Rightarrow> user_id \<Rightarrow> redis_service" where
  "setUserOffline r userId =
     (case r of
        None \<Rightarrow> None
      | Some kv \<Rightarrow>
          (let socketId = kv (user_key userId);
               kv1 = (if truthy socketId then kv(socket_key (the socketId) := None) else kv)
           in Some (kv1(user_key userId := None))))"

definition getUserBySocket :: "redis_service \<Rightarrow> socket_id \<Rightarrow> user_id option" where
  "getUserBySocket r socketId = (case r of None \<Rightarrow> None | Some kv \<Rightarrow> kv (socket_key socketId))"

definition getSocketByUser :: "redis_service \<Rightarrow> user_id \<Rightarrow> socket_id option" where
  "getSocketByUser r userId = (case r of None \<Rightarrow> None | Some kv \<Rightarrow> kv (user_key userId))"

definition isUserOnline :: "redis_service \<Rightarrow> user_id \<Rightarrow> bool" where
  "isUserOnline r userId = (case r of None \<Rightarrow> False | Some kv \<Rightarrow> truthy (kv (user_key userId)))"

text \<open>
  Connection events as the gateway applies them to the registry:
  \<^verbatim>\<open>handleConnection\<close> registers \<^verbatim>\<open>(userId, client.id)\<close>, \<^verbatim>\<open>handleDisconnect\<close>
  deregisters by \<^verbatim>\<open>userId\<close> alone.
\<close>

datatype conn_event = Register user_id socket_id | Deregister user_id

fun subject :: "conn_event \<Rightarrow> user_id" where
  "subject (Register u s) = u"
| "subject (Deregister u) = u"

fun apply_event :: "redis_service \<Rightarrow> conn_event \<Rightarrow> redis_service" where
  "apply_event r (Register u s) = setUserOnline r u s"
| "apply_event r (Deregister u) = setUserOffline r u"

fun apply_events :: "redis_service \<Rightarrow> conn_event list \<Rightarrow> redis_service" where
  "apply_events r [] = r"
| "apply_events r (e # es) = apply_events (apply_event r e) es"

text \<open>The most recent event of a user in a history (oldest event first).\<close>

fun most_recent :: "user_id \<Rightarrow> conn_event list \<Rightarrow> conn_event option" where
  "most_recent u [] = None"
| "most_recent u (e # es) =
     (case most_recent u es of
        Some e' \<Rightarrow> Some e'
      | None \<Rightarrow> if subject e = u then Some e else None)"

fun is_register :: "conn_event option \<Rightarrow> bool" where
  "is_register (Some (Register u s)) = True"
| "is_register _ = False"

fun handles_nonempty :: "conn_event list \<Rightarrow> bool" where
  "handles_nonempty [] = True"
| "handles_nonempty (Register u s # es) = (s \<noteq> [] \<and> handles_nonempty es)"
| "handles_nonempty (Deregister u # es) = handles_nonempty es"

section \<open>Persistence: \<^verbatim>\<open>db/schema.ts\<close> and the services over it\<close>

text \<open>
  Rows as the schema declares them. Identifiers drawn by \<^verbatim>\<open>defaultRandom()\<close> are taken
  from a counter, \<^verbatim>\<open>defaultNow()\<close> reads the database clock. Fields of the two message
  tables and of the two profile tables carry the same names in the source; the group
  versions are prefixed here.
\<close>

record message =
  msg_id :: nat
  fromUserId :: user_id
  toUserId :: user_id
  content :: string
  timestamp :: nat
  isRead :: bool
  isAIGenerated :: bool

record group_message =
  g_id :: nat
  g_groupId :: group_id
  g_fromUserId :: user_id
  g_content :: string
  g_timestamp :: nat
  g_isAIGenerated :: bool
  g_mentionedUserIds :: "string list"

record group_member =
  member_groupId :: group_id
  member_userId :: user_id
  isAdmin :: bool

text \<open>
  The features extracted by the analysis services (\<^verbatim>\<open>commonPhrases\<close>,
  \<^verbatim>\<open>emojiUsage\<close>, \<^verbatim>\<open>averageMessageLength\<close>, \<^verbatim>\<open>toneIndicators\<close>, and for a
  group \<^verbatim>\<open>memberContributions\<close>) are kept as one field of the profile row.
\<close>

record style_analysis =
  commonPhrases :: "string list"
  emojiUsage :: "(string \<times> nat) list"
  averageMessageLength :: nat
  toneIndicators :: "nat \<times> nat \<times> nat"

record group_style_analysis = style_analysis +
  memberContributions :: "(user_id \<times> nat) list"

record style_profile =
  userId :: user_id
  messageCount :: int
  features :: style_analysis
  stylePrompt :: "string option"
  lastUpdated :: nat

record group_style_profile =
  gp_groupId :: group_id
  gp_messageCount :: int
  gp_features :: group_style_analysis
  gp_stylePrompt :: "string option"
  gp_lastUpdated :: nat

text \<open>
  The database: its tables in insertion order, the identifier counter and the clock.
  \<open>reachable\<close> is whether queries are answered; when it is false every query rejects.
  \<open>users\<close> holds the primary keys of the \<^verbatim>\<open>user\<close> table, \<open>groups\<close> those of
  \<^verbatim>\<open>groups\<close>, \<open>userProfile\<close> the pairs \<^verbatim>\<open>(userId, displayName)\<close>.
\<close>

record database =
  reachable :: bool
  users :: "user_id list"
  userProfile :: "(user_id \<times> string) list"
  groups :: "group_id list"
  groupMembers :: "group_member list"
  messages :: "message list"
  groupMessages :: "group_message list"
  styleProfiles :: "style_profile list"
  groupStyleProfiles :: "group_style_profile list"
  next_id :: nat
  db_now :: nat

definition select :: "database \<Rightarrow> 'a \<Rightarrow> error + 'a" where
  "select d rows = (if reachable d then Inr rows else Inl DatabaseError)"

subsection \<open>\<^verbatim>\<open>chat/chat.service.ts\<close>\<close>

text \<open>
  \<^verbatim>\<open>sendMessage\<close> inserts one row and returns it. The insert rejects when the database
  does not answer or when a foreign key (\<^verbatim>\<open>from_user_id\<close>, \<^verbatim>\<open>to_user_id\<close> reference
  \<^verbatim>\<open>user.id\<close>) is violated.
\<close>

definition sendMessage ::
  "database \<Rightarrow> user_id \<Rightarrow> user_id \<Rightarrow> string \<Rightarrow> bool \<Rightarrow> error + (message \<times> database)" where
  "sendMessage d from to text ai =
     (if \<not> reachable d \<or> from \<notin> set (users d) \<or> to \<notin> set (users d) then Inl DatabaseError
      else
        (let m = \<lparr>msg_id = next_id d, fromUserId = from, toUserId = to, content = text,
                   timestamp = db_now d, isRead = False, isAIGenerated = ai\<rparr>
         in Inr (m, d\<lparr>messages := messages d @ [m], next_id := Suc (next_id d)\<rparr>)))"

subsection \<open>\<^verbatim>\<open>groups/group-message.service.ts\<close>\<close>

text \<open>\<^verbatim>\<open>extractMentions\<close>: the matches of \<^verbatim>\<open>/@(\w+)/g\<close>, first occurrences only.\<close>

definition word_char :: "char \<Rightarrow> bool" where
  "word_char c =
     (c \<in> set ''abcdefghijklmnopqrstuvwxyzABCDEFGHIJKLMNOPQRSTUVWXYZ0123456789_'')"

function mentions :: "string \<Rightarrow> string list" where
  "mentions [] = []"
| "mentions (c # cs) =
     (if c = CHR ''@'' \<and> takeWhile word_char cs \<noteq> []
      then takeWhile word_char cs # mentions (dropWhile word_char cs)
      else mentions cs)"
  by pat_completeness auto
termination
  by (relation "measure length") (auto simp: length_dropWhile_le less_Suc_eq_le)

fun unique :: "string list \<Rightarrow> string list \<Rightarrow> string list" where
  "unique seen [] = []"
| "unique seen (x # xs) = (if x \<in> set seen then unique seen xs else x # unique (x # seen) xs)"

definition extractMentions :: "string \<Rightarrow> string list" where
  "extractMentions text = unique [] (mentions text)"

text \<open>
  \<^verbatim>\<open>sendGroupMessage\<close>: \<^verbatim>\<open>group_id\<close> references \<^verbatim>\<open>groups.id\<close> and
  \<^verbatim>\<open>from_user_id\<close> references \<^verbatim>\<open>user.id\<close>.
\<close>

definition sendGroupMessage ::
  "database \<Rightarrow> group_id \<Rightarrow> user_id \<Rightarrow> string \<Rightarrow> bool \<Rightarrow> error + (group_message \<times> database)" where
  "sendGroupMessage d groupId from text ai =
     (if \<not> reachable d \<or> groupId \<notin> set (groups d) \<or> from \<notin> set (users d) then Inl DatabaseError
      else
        (let m = \<lparr>g_id = next_id d, g_groupId = groupId, g_fromUserId = from, g_content = text,
                   g_timestamp = db_now d, g_isAIGenerated = ai,
                   g_mentionedUserIds = extractMentions text\<rparr>
         in Inr (m, d\<lparr>groupMessages := groupMessages d @ [m], next_id := Suc (next_id d)\<rparr>)))"

subsection \<open>\<^verbatim>\<open>GroupsService\<close>: membership\<close>

definition isUserInGroup :: "database \<Rightarrow> group_id \<Rightarrow> user_id \<Rightarrow> error + bool" where
  "isUserInGroup d groupId u =
     await (select d (filter (\<lambda>m. member_groupId m = groupId \<and> member_userId m = u) (groupMembers d)))
       (\<lambda>membership. Inr (membership \<noteq> []))"

definition getGroupMembers :: "database \<Rightarrow> group_id \<Rightarrow> error + group_member list" where
  "getGroupMembers d groupId =
     await (select d (filter (\<lambda>g. g = groupId) (groups d)))
       (\<lambda>group.
          if group = [] then Inl NotFoundException
          else select d (filter (\<lambda>m. member_groupId m = groupId) (groupMembers d)))"

section \<open>Style model scheduler\<close>

text \<open>
  The feature extraction of \<^verbatim>\<open>AIStyleAnalysisService\<close> and
  \<^verbatim>\<open>GroupAIStyleAnalysisService\<close>, the rendering of the prompt and the completion
  endpoint of the generation provider are parameters of the model: the scheduler and
  the gateway depend on when they are called and on what is stored, not on the features
  they compute. A streamed completion is the list of the \<^verbatim>\<open>delta.content\<close> fields of its
  chunks (\<open>None\<close> when the field is absent) and how the stream finished; a request that
  throws before the first chunk is \<open>([], Failed)\<close>.
\<close>

datatype finish = Completed | Failed

type_synonym completion = "string option list \<times> finish"

record services =
  analyzeMessages :: "(string \<times> nat) list \<Rightarrow> style_analysis"
  generateStylePrompt :: "style_analysis \<Rightarrow> string"
  analyzeGroupMessages :: "group_message list \<Rightarrow> group_style_analysis"
  generateGroupStylePrompt :: "group_style_analysis \<Rightarrow> (user_id \<times> string) list \<Rightarrow> string"
  completions_create :: "string \<Rightarrow> string \<Rightarrow> completion"

definition emptyAnalysis :: style_analysis where
  "emptyAnalysis =
     \<lparr>commonPhrases = [], emojiUsage = [], averageMessageLength = 0, toneIndicators = (0, 0, 0)\<rparr>"

definition emptyGroupAnalysis :: group_style_analysis where
  "emptyGroupAnalysis =
     \<lparr>commonPhrases = [], emojiUsage = [], averageMessageLength = 0, toneIndicators = (0, 0, 0),
      memberContributions = []\<rparr>"

subsection \<open>\<^verbatim>\<open>ai-friend/style-profile.service.ts\<close>\<close>

definition getStyleProfile :: "database \<Rightarrow> user_id \<Rightarrow> error + style_profile option" where
  "getStyleProfile d u =
     await (select d (filter (\<lambda>p. userId p = u) (styleProfiles d)))
       (\<lambda>rows. Inr (case rows of [] \<Rightarrow> None | profile # _ \<Rightarrow> Some profile))"

text \<open>The eligible messages of a user: sent by the user, not generated.\<close>

definition userDirectMessages :: "database \<Rightarrow> user_id \<Rightarrow> message list" where
  "userDirectMessages d u = filter (\<lambda>m. fromUserId m = u \<and> \<not> isAIGenerated m) (messages d)"

definition userGroupMessages :: "database \<Rightarrow> user_id \<Rightarrow> group_message list" where
  "userGroupMessages d u = filter (\<lambda>m. g_fromUserId m = u \<and> \<not> g_isAIGenerated m) (groupMessages d)"

definition updateStyleProfile ::
  "services \<Rightarrow> database \<Rightarrow> user_id \<Rightarrow> error + (style_profile \<times> database)" where
  "updateStyleProfile sv d u =
     await (select d (filter (\<lambda>m. (fromUserId m = u \<or> toUserId m = u) \<and> \<not> isAIGenerated m) (messages d)))
       (\<lambda>direct.
     await (select d (userGroupMessages d u))
       (\<lambda>group.
          let sentMessages =
                map (\<lambda>m. (content m, timestamp m)) (filter (\<lambda>m. fromUserId m = u) direct)
                @ map (\<lambda>m. (g_content m, g_timestamp m)) group;
              analysis = analyzeMessages sv sentMessages;
              prompt = generateStylePrompt sv analysis
          in
     await (select d (filter (\<lambda>p. userId p = u) (styleProfiles d)))
       (\<lambda>existingProfile.
          let profileData =
                \<lparr>userId = u, messageCount = int (length sentMessages), features = analysis,
                 stylePrompt = Some prompt, lastUpdated = db_now d\<rparr>
          in if existingProfile \<noteq> []
             then Inr (profileData,
                       d\<lparr>styleProfiles :=
                            map (\<lambda>p. if userId p = u then profileData else p) (styleProfiles d)\<rparr>)
             else if u \<notin> set (users d) then Inl DatabaseError
             else Inr (profileData, d\<lparr>styleProfiles := styleProfiles d @ [profileData]\<rparr>))))"

definition resetStyleProfile :: "database \<Rightarrow> user_id \<Rightarrow> error + database" where
  "resetStyleProfile d u =
     await (select d ())
       (\<lambda>_. Inr (d\<lparr>styleProfiles :=
                      map (\<lambda>p. if userId p = u
                                then p\<lparr>messageCount := 0, features := emptyAnalysis,
                                       stylePrompt := Some [], lastUpdated := db_now d\<rparr>
                                else p)
                          (styleProfiles d)\<rparr>))"

definition shouldUpdateProfile :: "database \<Rightarrow> user_id \<Rightarrow> error + bool" where
  "shouldUpdateProfile d u =
     await (getStyleProfile d u)
       (\<lambda>profile.
          case profile of
            None \<Rightarrow> Inr True
          | Some p \<Rightarrow>
              await (select d (userDirectMessages d u))
                (\<lambda>direct.
              await (select d (userGroupMessages d u))
                (\<lambda>group.
                   let currentCount = int (length direct) + int (length group);
                       lastCount = messageCount p
                   in Inr (currentCount \<ge> lastCount + 10))))"

subsection \<open>\<^verbatim>\<open>groups/group-ai-profile.service.ts\<close>\<close>

definition UPDATE_INTERVAL :: int where
  "UPDATE_INTERVAL = 20"

text \<open>The eligible messages of a group: posted in the group, not generated.\<close>

definition eligibleGroupMessages :: "database \<Rightarrow> group_id \<Rightarrow> group_message list" where
  "eligibleGroupMessages d g = filter (\<lambda>m. g_groupId m = g \<and> \<not> g_isAIGenerated m) (groupMessages d)"

definition updateGroupStyleProfile ::
  "services \<Rightarrow> database \<Rightarrow> group_id \<Rightarrow> error + (group_style_profile \<times> database)" where
  "updateGroupStyleProfile sv d g =
     await (select d (eligibleGroupMessages d g))
       (\<lambda>msgs.
          let analysis = analyzeGroupMessages sv msgs;
              memberIds = map fst (memberContributions analysis)
          in
     await (select d (concat (map (\<lambda>memberId. take 1 (filter (\<lambda>row. fst row = memberId) (userProfile d)))
                                  memberIds)))
       (\<lambda>allMembers.
          let prompt = generateGroupStylePrompt sv analysis allMembers in
     await (select d (filter (\<lambda>p. gp_groupId p = g) (groupStyleProfiles d)))
       (\<lambda>existingProfile.
          let profileData =
                \<lparr>gp_groupId = g, gp_messageCount = int (length msgs), gp_features = analysis,
                 gp_stylePrompt = Some prompt, gp_lastUpdated = db_now d\<rparr>
          in if existingProfile \<noteq> []
             then Inr (profileData,
                       d\<lparr>groupStyleProfiles :=
                            map (\<lambda>p. if gp_groupId p = g then profileData else p)
                                (groupStyleProfiles d)\<rparr>)
             else if g \<notin> set (groups d) then Inl DatabaseError
             else Inr (profileData, d\<lparr>groupStyleProfiles := groupStyleProfiles d @ [profileData]\<rparr>))))"

definition getGroupStyleProfile :: "database \<Rightarrow> group_id \<Rightarrow> error + group_style_profile option" where
  "getGroupStyleProfile d g =
     await (select d (filter (\<lambda>p. gp_groupId p = g) (groupStyleProfiles d)))
       (\<lambda>rows.
          case rows of
            [] \<Rightarrow> Inr None
          | profile # _ \<Rightarrow>
              await (select d (eligibleGroupMessages d g))
                (\<lambda>msgs. Inr (Some (profile\<lparr>gp_messageCount := int (length msgs)\<rparr>))))"

definition resetGroupStyleProfile :: "database \<Rightarrow> group_id \<Rightarrow> error + database" where
  "resetGroupStyleProfile d g =
     await (select d ())
       (\<lambda>_. Inr (d\<lparr>groupStyleProfiles :=
                      map (\<lambda>p. if gp_groupId p = g
                                then p\<lparr>gp_messageCount := 0, gp_features := emptyGroupAnalysis,
                                       gp_stylePrompt := Some [], gp_lastUpdated := db_now d\<rparr>
                                else p)
                          (groupStyleProfiles d)\<rparr>))"

definition shouldUpdateGroupProfile :: "database \<Rightarrow> group_id \<Rightarrow> error + bool" where
  "shouldUpdateGroupProfile d g =
     await (getGroupStyleProfile d g)
       (\<lambda>profile.
     await (select d (eligibleGroupMessages d g))
       (\<lambda>msgs.
          let currentCount = int (length msgs) in
          case profile of
            None \<Rightarrow> Inr (currentCount \<ge> UPDATE_INTERVAL)
          | Some p \<Rightarrow>
              (let lastCount = gp_messageCount p
               in Inr (currentCount \<ge> lastCount + UPDATE_INTERVAL))))"

section \<open>Generation: \<^verbatim>\<open>ai-friend/ai-friend.service.ts\<close>, \<^verbatim>\<open>groups/group-ai.service.ts\<close>\<close>

definition AI_FRIEND_USER_ID :: user_id where
  "AI_FRIEND_USER_ID = ''kirhost''"

definition MINIMUM_MESSAGES_REQUIRED :: int where
  "MINIMUM_MESSAGES_REQUIRED = 10"

definition GROUP_MINIMUM_MESSAGES_REQUIRED :: int where
  "GROUP_MINIMUM_MESSAGES_REQUIRED = 20"

text \<open>The canned texts, as the bytes of the source files.\<close>

definition STILL_LEARNING :: string where
  "STILL_LEARNING =
     ''I'm still learning your chat style! Keep chatting with your friends, and after 10 messages, I'll be able to chat just like you! ''
     @ [CHR 0xF0, CHR 0x9F, CHR 0x98, CHR 0x8A]"

definition STILL_ANALYZING :: string where
  "STILL_ANALYZING = ''I'm still analyzing your chat style. Send me a few more messages!''"

definition GROUP_STILL_LEARNING :: string where
  "GROUP_STILL_LEARNING =
     ''I'm still learning your group's chat style! Keep chatting, and after 20 messages, I'll be able to chat just like you all! ''
     @ [CHR 0xC3, CHR 0xB0, CHR 0xC5, CHR 0xB8, CHR 0xCB, CHR 0x9C, CHR 0xC5, CHR 0xA0]"

definition GROUP_STILL_ANALYZING :: string where
  "GROUP_STILL_ANALYZING = ''I'm still analyzing your group's chat style. Send a few more messages!''"

definition APOLOGY :: string where
  "APOLOGY = ''Oops! Something went wrong. Let's try that again!''"

text \<open>
  What an asynchronous generator did when it is run to its end: the chunks it yielded,
  in order, and the requests it made to the provider (system prompt, user message).
\<close>

record generation =
  yielded :: "string list"
  provider_calls :: "(string \<times> string) list"

text \<open>
  The loop over the provider's stream yields every truthy \<^verbatim>\<open>delta.content\<close>; when the
  stream fails the \<^verbatim>\<open>catch\<close> block yields the apology after what was already yielded.
\<close>

fun stream_contents :: "string option list \<Rightarrow> string list" where
  "stream_contents [] = []"
| "stream_contents (c # cs) = (if truthy c then the c # stream_contents cs else stream_contents cs)"

definition provider_stream :: "services \<Rightarrow> string \<Rightarrow> string \<Rightarrow> generation" where
  "provider_stream sv prompt userMessage =
     (case completions_create sv prompt userMessage of
        (chunks, fin) \<Rightarrow>
          \<lparr>yielded = stream_contents chunks @ (if fin = Failed then [APOLOGY] else []),
           provider_calls = [(prompt, userMessage)]\<rparr>)"

definition hasMinimumData :: "database \<Rightarrow> user_id \<Rightarrow> error + bool" where
  "hasMinimumData d u =
     await (getStyleProfile d u)
       (\<lambda>profile.
          case profile of
            None \<Rightarrow> Inr False
          | Some p \<Rightarrow> Inr (messageCount p \<ge> MINIMUM_MESSAGES_REQUIRED))"

definition generateAIResponseStream ::
  "services \<Rightarrow> database \<Rightarrow> user_id \<Rightarrow> string \<Rightarrow> error + generation" where
  "generateAIResponseStream sv d u userMessage =
     await (hasMinimumData d u)
       (\<lambda>enough.
          if \<not> enough then Inr \<lparr>yielded = [STILL_LEARNING], provider_calls = []\<rparr>
          else
     await (getStyleProfile d u)
       (\<lambda>styleProfile.
          case styleProfile of
            None \<Rightarrow> Inr \<lparr>yielded = [STILL_ANALYZING], provider_calls = []\<rparr>
          | Some p \<Rightarrow>
              if \<not> truthy (stylePrompt p)
              then Inr \<lparr>yielded = [STILL_ANALYZING], provider_calls = []\<rparr>
              else Inr (provider_stream sv (the (stylePrompt p)) userMessage)))"

definition groupHasMinimumData :: "database \<Rightarrow> group_id \<Rightarrow> error + bool" where
  "groupHasMinimumData d g =
     await (getGroupStyleProfile d g)
       (\<lambda>profile.
          case profile of
            None \<Rightarrow> Inr False
          | Some p \<Rightarrow> Inr (gp_messageCount p \<ge> GROUP_MINIMUM_MESSAGES_REQUIRED))"

definition generateGroupAIResponseStream ::
  "services \<Rightarrow> database \<Rightarrow> group_id \<Rightarrow> string \<Rightarrow> error + generation" where
  "generateGroupAIResponseStream sv d g userMessage =
     await (groupHasMinimumData d g)
       (\<lambda>enough.
          if \<not> enough then Inr \<lparr>yielded = [GROUP_STILL_LEARNING], provider_calls = []\<rparr>
          else
     await (getGroupStyleProfile d g)
       (\<lambda>styleProfile.
          case styleProfile of
            None \<Rightarrow> Inr \<lparr>yielded = [GROUP_STILL_ANALYZING], provider_calls = []\<rparr>
          | Some p \<Rightarrow>
              if \<not> truthy (gp_stylePrompt p)
              then Inr \<lparr>yielded = [GROUP_STILL_ANALYZING], provider_calls = []\<rparr>
              else Inr (provider_stream sv (the (gp_stylePrompt p)) userMessage)))"

definition getGroupAIUserId :: "group_id \<Rightarrow> user_id" where
  "getGroupAIUserId groupId = ''group-ai-'' @ groupId"

definition sendGroupAIMessage ::
  "database \<Rightarrow> group_id \<Rightarrow> string \<Rightarrow> error + (group_message \<times> database)" where
  "sendGroupAIMessage d groupId text = sendGroupMessage d groupId (getGroupAIUserId groupId) text True"

section \<open>The gateway: \<^verbatim>\<open>gateway/events.gateway.ts\<close>\<close>

text \<open>
  What the gateway sends is recorded in order. \<open>Broadcast\<close> is \<^verbatim>\<open>server.emit\<close>,
  \<open>Room s\<close> is \<^verbatim>\<open>server.to(s).emit\<close> (the room of a socket id holds that connection),
  \<open>Client s\<close> is \<^verbatim>\<open>client.emit\<close> on the connection whose id is \<open>s\<close>.
\<close>

datatype target = Broadcast | Room socket_id | Client socket_id

datatype payload =
    StatusP user_id string
  | MessageP message
  | GroupMessageP group_message
  | ErrorP string
  | StreamStartP nat
  | StreamChunkP string string
  | StreamEndP message
  | GroupStreamStartP group_id nat
  | GroupStreamChunkP group_id string string
  | GroupStreamEndP group_id group_message

datatype emission = Emit target string payload

text \<open>
  A recomputation started without being awaited is a pending task; \<open>run_task\<close> is what
  it does when it runs, its rejection caught and logged.
\<close>

datatype task = RecomputeUser user_id | RecomputeGroup group_id

record client =
  client_id :: socket_id
  data_userId :: "user_id option"
  connected :: bool

record world =
  redis :: redis_service
  db :: database
  outbox :: "emission list"
  pending :: "task list"

fun run_task :: "services \<Rightarrow> database \<Rightarrow> task \<Rightarrow> database" where
  "run_task sv d (RecomputeUser u) =
     (case shouldUpdateProfile d u of
        Inr True \<Rightarrow> (case updateStyleProfile sv d u of Inr (p, d') \<Rightarrow> d' | Inl e \<Rightarrow> d)
      | _ \<Rightarrow> d)"
| "run_task sv d (RecomputeGroup g) =
     (case shouldUpdateGroupProfile d g of
        Inr True \<Rightarrow> (case updateGroupStyleProfile sv d g of Inr (p, d') \<Rightarrow> d' | Inl e \<Rightarrow> d)
      | _ \<Rightarrow> d)"

definition emit :: "world \<Rightarrow> target \<Rightarrow> string \<Rightarrow> payload \<Rightarrow> world" where
  "emit w t event data = w\<lparr>outbox := outbox w @ [Emit t event data]\<rparr>"

definition emitToUser :: "world \<Rightarrow> user_id \<Rightarrow> string \<Rightarrow> payload \<Rightarrow> world \<times> bool" where
  "emitToUser w u event data =
     (let socketId = getSocketByUser (redis w) u
      in if truthy socketId then (emit w (Room (the socketId)) event data, True)
         else (w, False))"

text \<open>\<^verbatim>\<open>for (const member of groupMembers) await this.emitToUser(member.userId, ...)\<close>\<close>

fun emitToMembers :: "world \<Rightarrow> group_member list \<Rightarrow> string \<Rightarrow> payload \<Rightarrow> world" where
  "emitToMembers w [] event data = w"
| "emitToMembers w (member # rest) event data =
     emitToMembers (fst (emitToUser w (member_userId member) event data)) rest event data"

subsection \<open>Connections\<close>

text \<open>
  \<open>session\<close> is the user id of the validated session, \<open>None\<close> when the session is
  missing, has no user, or validation throws.
\<close>

definition handleConnection :: "world \<Rightarrow> client \<Rightarrow> user_id option \<Rightarrow> world \<times> client" where
  "handleConnection w c session =
     (case session of
        None \<Rightarrow> (w, c\<lparr>connected := False\<rparr>)
      | Some u \<Rightarrow>
          (emit (w\<lparr>redis := setUserOnline (redis w) u (client_id c)\<rparr>)
                Broadcast ''user:status'' (StatusP u ''online''),
           c\<lparr>data_userId := Some u\<rparr>))"

definition handleDisconnect :: "world \<Rightarrow> client \<Rightarrow> world" where
  "handleDisconnect w c =
     (if truthy (data_userId c)
      then emit (w\<lparr>redis := setUserOffline (redis w) (the (data_userId c))\<rparr>)
                Broadcast ''user:status'' (StatusP (the (data_userId c)) ''offline'')
      else w)"

subsection \<open>Direct messages\<close>

text \<open>
  \<^verbatim>\<open>this.styleProfileService.shouldUpdateProfile(u).then(...).catch(...)\<close> is not awaited.
  \<open>start_task\<close> takes, as \<open>early\<close>, whether the recomputation lands before the
  handler's next read of the database; otherwise it stays pending.
\<close>

definition start_task :: "services \<Rightarrow> bool \<Rightarrow> world \<Rightarrow> task \<Rightarrow> world" where
  "start_task sv early w t =
     (if early then w\<lparr>db := run_task sv (db w) t\<rparr> else w\<lparr>pending := pending w @ [t]\<rparr>)"

definition handleMessageSend :: "world \<Rightarrow> client \<Rightarrow> user_id \<Rightarrow> string \<Rightarrow> world" where
  "handleMessageSend w c recipient text =
     (if \<not> truthy (data_userId c) then w
      else
        (let sender = the (data_userId c) in
         case sendMessage (db w) sender recipient text False of
           Inl e \<Rightarrow> emit w (Client (client_id c)) ''message:error'' (ErrorP ''Failed to send message'')
         | Inr (message, d1) \<Rightarrow>
             (let w1 = w\<lparr>db := d1, pending := pending w @ [RecomputeUser sender]\<rparr>;
                  (w2, sent) = emitToUser w1 recipient ''message:receive'' (MessageP message)
              in emit w2 (Client (client_id c)) ''message:sent'' (MessageP message))))"

subsection \<open>Companion agent stream\<close>

text \<open>
  \<^verbatim>\<open>for await (const chunk of ...) { fullResponse += chunk; client.emit(...) }\<close>: the
  loop returns the world and the assembled \<^verbatim>\<open>fullResponse\<close>.
\<close>

fun forwardChunks :: "world \<Rightarrow> socket_id \<Rightarrow> string \<Rightarrow> string list \<Rightarrow> world \<times> string" where
  "forwardChunks w cid fullResponse [] = (w, fullResponse)"
| "forwardChunks w cid fullResponse (chunk # rest) =
     forwardChunks
       (emit w (Client cid) ''ai-friend:stream-chunk'' (StreamChunkP chunk (fullResponse @ chunk)))
       cid (fullResponse @ chunk) rest"

definition aiFriendError :: "world \<Rightarrow> client \<Rightarrow> world" where
  "aiFriendError w c =
     emit w (Client (client_id c)) ''ai-friend:error'' (ErrorP ''Failed to generate AI response'')"

definition aiFriendStream :: "services \<Rightarrow> world \<Rightarrow> client \<Rightarrow> user_id \<Rightarrow> string \<Rightarrow> world" where
  "aiFriendStream sv w c u text =
     (case generateAIResponseStream sv (db w) u text of
        Inl e \<Rightarrow> aiFriendError w c
      | Inr gen \<Rightarrow>
          (case forwardChunks w (client_id c) [] (yielded gen) of
             (w1, fullResponse) \<Rightarrow>
               (case sendMessage (db w1) AI_FRIEND_USER_ID u fullResponse True of
                  Inl e \<Rightarrow> aiFriendError w1 c
                | Inr (aiMessage, d2) \<Rightarrow>
                    emit (w1\<lparr>db := d2\<rparr>) (Client (client_id c)) ''ai-friend:stream-end''
                         (StreamEndP aiMessage))))"

definition handleAIFriendMessage :: "services \<Rightarrow> bool \<Rightarrow> world \<Rightarrow> client \<Rightarrow> string \<Rightarrow> world" where
  "handleAIFriendMessage sv early w c text =
     (if \<not> truthy (data_userId c) then w
      else
        (let u = the (data_userId c) in
         case sendMessage (db w) u AI_FRIEND_USER_ID text False of
           Inl e \<Rightarrow> aiFriendError w c
         | Inr (userMessage, d1) \<Rightarrow>
             (let w1 = emit (w\<lparr>db := d1\<rparr>) (Client (client_id c)) ''ai-friend:user-message-sent''
                            (MessageP userMessage);
                  w2 = start_task sv early w1 (RecomputeUser u);
                  w3 = emit w2 (Client (client_id c)) ''ai-friend:stream-start''
                            (StreamStartP (msg_id userMessage))
              in aiFriendStream sv w3 c u text)))"

subsection \<open>Group messages\<close>

text \<open>
  \<^verbatim>\<open>for (const member of groupMembers) if (member.userId !== fromUserId) await
  this.emitToUser(member.userId, 'group:message:receive', message)\<close>
\<close>

fun emitToOthers :: "world \<Rightarrow> user_id \<Rightarrow> group_member list \<Rightarrow> string \<Rightarrow> payload \<Rightarrow> world" where
  "emitToOthers w sender [] event data = w"
| "emitToOthers w sender (member # rest) event data =
     (if member_userId member \<noteq> sender
      then emitToOthers (fst (emitToUser w (member_userId member) event data)) sender rest event data
      else emitToOthers w sender rest event data)"

definition groupMessageError :: "world \<Rightarrow> client \<Rightarrow> string \<Rightarrow> world" where
  "groupMessageError w c reason = emit w (Client (client_id c)) ''group:message:error'' (ErrorP reason)"

definition routeGroupMessage :: "world \<Rightarrow> client \<Rightarrow> user_id \<Rightarrow> group_id \<Rightarrow> string \<Rightarrow> world" where
  "routeGroupMessage w c sender groupId text =
     (case sendGroupMessage (db w) groupId sender text False of
        Inl e \<Rightarrow> groupMessageError w c ''Failed to send message''
      | Inr (message, d1) \<Rightarrow>
          (case getGroupMembers d1 groupId of
             Inl e \<Rightarrow> groupMessageError (w\<lparr>db := d1\<rparr>) c ''Failed to send message''
           | Inr members \<Rightarrow>
               (let w2 = emitToOthers (w\<lparr>db := d1\<rparr>) sender members ''group:message:receive''
                                      (GroupMessageP message);
                    w3 = emit w2 (Client (client_id c)) ''group:message:sent'' (GroupMessageP message)
                in w3\<lparr>pending := pending w3 @ [RecomputeGroup groupId]\<rparr>)))"

definition handleGroupMessageSend :: "world \<Rightarrow> client \<Rightarrow> group_id \<Rightarrow> string \<Rightarrow> world" where
  "handleGroupMessageSend w c groupId text =
     (if \<not> truthy (data_userId c) then w
      else
        (let sender = the (data_userId c) in
         case isUserInGroup (db w) groupId sender of
           Inl e \<Rightarrow> groupMessageError w c ''Failed to send message''
         | Inr isMember \<Rightarrow>
             if \<not> isMember then groupMessageError w c ''You are not a member of this group''
             else routeGroupMessage w c sender groupId text))"

subsection \<open>Group agent stream\<close>

fun forwardGroupChunks ::
  "world \<Rightarrow> group_member list \<Rightarrow> group_id \<Rightarrow> string \<Rightarrow> string list \<Rightarrow> world \<times> string" where
  "forwardGroupChunks w members groupId fullResponse [] = (w, fullResponse)"
| "forwardGroupChunks w members groupId fullResponse (chunk # rest) =
     forwardGroupChunks
       (emitToMembers w members ''group:ai:stream-chunk''
          (GroupStreamChunkP groupId chunk (fullResponse @ chunk)))
       members groupId (fullResponse @ chunk) rest"

definition groupAIError :: "world \<Rightarrow> client \<Rightarrow> string \<Rightarrow> world" where
  "groupAIError w c reason = emit w (Client (client_id c)) ''group:ai:error'' (ErrorP reason)"

text \<open>The part of \<^verbatim>\<open>handleGroupAIMention\<close> after the member list is fetched.\<close>

definition groupAIStream ::
  "services \<Rightarrow> world \<Rightarrow> client \<Rightarrow> group_id \<Rightarrow> string \<Rightarrow> group_member list \<Rightarrow> world" where
  "groupAIStream sv w c groupId text members =
     (let w1 = emitToMembers w members ''group:ai:stream-start''
                 (GroupStreamStartP groupId (db_now (db w)))
      in case generateGroupAIResponseStream sv (db w1) groupId text of
           Inl e \<Rightarrow> groupAIError w1 c ''Failed to generate AI response''
         | Inr gen \<Rightarrow>
             (case forwardGroupChunks w1 members groupId [] (yielded gen) of
                (w2, fullResponse) \<Rightarrow>
                  (case sendGroupAIMessage (db w2) groupId fullResponse of
                     Inl e \<Rightarrow> groupAIError w2 c ''Failed to generate AI response''
                   | Inr (aiMessage, d3) \<Rightarrow>
                       emitToMembers (w2\<lparr>db := d3\<rparr>) members ''group:ai:stream-end''
                         (GroupStreamEndP groupId aiMessage))))"

text \<open>The recomputation before generation is awaited: \<^verbatim>\<open>if (shouldUpdate) await ...\<close>\<close>

definition refreshGroupProfile :: "services \<Rightarrow> database \<Rightarrow> group_id \<Rightarrow> error + database" where
  "refreshGroupProfile sv d groupId =
     await (shouldUpdateGroupProfile d groupId)
       (\<lambda>shouldUpdate.
          if shouldUpdate
          then await (updateGroupStyleProfile sv d groupId) (\<lambda>(p, d1). Inr d1)
          else Inr d)"

definition handleGroupAIMention :: "services \<Rightarrow> world \<Rightarrow> client \<Rightarrow> group_id \<Rightarrow> string \<Rightarrow> world" where
  "handleGroupAIMention sv w c groupId text =
     (if \<not> truthy (data_userId c) then w
      else
        (let mentionedBy = the (data_userId c) in
         case isUserInGroup (db w) groupId mentionedBy of
           Inl e \<Rightarrow> groupAIError w c ''Failed to generate AI response''
         | Inr isMember \<Rightarrow>
             if \<not> isMember then groupAIError w c ''You are not a member of this group''
             else
               (case refreshGroupProfile sv (db w) groupId of
                  Inl e \<Rightarrow> groupAIError w c ''Failed to generate AI response''
                | Inr d1 \<Rightarrow>
                    (case getGroupMembers d1 groupId of
                       Inl e \<Rightarrow> groupAIError (w\<lparr>db := d1\<rparr>) c ''Failed to generate AI response''
                     | Inr members \<Rightarrow> groupAIStream sv (w\<lparr>db := d1\<rparr>) c groupId text members))))"

section \<open>Reading the record of emissions\<close>

fun event_of :: "emission \<Rightarrow> string" where
  "event_of (Emit t e p) = e"

fun target_of :: "emission \<Rightarrow> target" where
  "target_of (Emit t e p) = t"

fun payload_of :: "emission \<Rightarrow> payload" where
  "payload_of (Emit t e p) = p"

text \<open>The emissions of one event, and those of one event that reach one connection.\<close>

definition emitted :: "string \<Rightarrow> emission list \<Rightarrow> emission list" where
  "emitted event out = filter (\<lambda>x. event_of x = event) out"

fun reaches :: "socket_id \<Rightarrow> target \<Rightarrow> bool" where
  "reaches s Broadcast = True"
| "reaches s (Room r) = (r = s)"
| "reaches s (Client r) = (r = s)"

definition received :: "socket_id \<Rightarrow> string \<Rightarrow> emission list \<Rightarrow> payload list" where
  "received s event out =
     map payload_of (filter (\<lambda>x. event_of x = event \<and> reaches s (target_of x)) out)"

text \<open>The connections to which one event was addressed.\<close>

fun rooms :: "emission list \<Rightarrow> socket_id set" where
  "rooms [] = {}"
| "rooms (Emit (Room s) e p # out) = insert s (rooms out)"
| "rooms (Emit (Client s) e p # out) = insert s (rooms out)"
| "rooms (Emit Broadcast e p # out) = rooms out"

text \<open>The text fragments carried by stream-chunk payloads, in order.\<close>

fun chunk_text :: "payload \<Rightarrow> string" where
  "chunk_text (StreamChunkP chunk full) = chunk"
| "chunk_text (GroupStreamChunkP g chunk full) = chunk"
| "chunk_text _ = []"

fun generated_stored :: "database \<Rightarrow> bool" where
  "generated_stored d = (filter isAIGenerated (messages d) \<noteq> [] \<or> filter g_isAIGenerated (groupMessages d) \<noteq> [])"

section \<open>Observations used to state the properties\<close>

text \<open>
  The stored profile of a subject is the first row of its table with that key; the
  recorded count is its \<^verbatim>\<open>messageCount\<close> column, 0 when there is no row. The eligible
  count is the number of stored messages of the subject that are not generated.
\<close>

definition storedProfile :: "database \<Rightarrow> user_id \<Rightarrow> style_profile option" where
  "storedProfile d u = (case filter (\<lambda>p. userId p = u) (styleProfiles d) of [] \<Rightarrow> None | p # _ \<Rightarrow> Some p)"

definition storedGroupProfile :: "database \<Rightarrow> group_id \<Rightarrow> group_style_profile option" where
  "storedGroupProfile d g = (case filter (\<lambda>p. gp_groupId p = g) (groupStyleProfiles d) of [] \<Rightarrow> None | p # _ \<Rightarrow> Some p)"

definition recordedCount :: "database \<Rightarrow> user_id \<Rightarrow> int" where
  "recordedCount d u = (case storedProfile d u of None \<Rightarrow> 0 | Some p \<Rightarrow> messageCount p)"

definition groupRecordedCount :: "database \<Rightarrow> group_id \<Rightarrow> int" where
  "groupRecordedCount d g = (case storedGroupProfile d g of None \<Rightarrow> 0 | Some p \<Rightarrow> gp_messageCount p)"

definition eligibleCount :: "database \<Rightarrow> user_id \<Rightarrow> int" where
  "eligibleCount d u = int (length (userDirectMessages d u)) + int (length (userGroupMessages d u))"

definition groupEligibleCount :: "database \<Rightarrow> group_id \<Rightarrow> int" where
  "groupEligibleCount d g = int (length (eligibleGroupMessages d g))"

text \<open>
  The eligibility rule in the words of the specification:
  \<^verbatim>\<open>currentCount - lastComputedCount >= INTERVAL\<close>.
\<close>

definition shouldRecompute_spec :: "int \<Rightarrow> int \<Rightarrow> int \<Rightarrow> bool" where
  "shouldRecompute_spec currentCount lastComputedCount INTERVAL = (currentCount - lastComputedCount \<ge> INTERVAL)"

text \<open>
  What a handler added to the record of emissions; the handle of a user, the member
  rows of a group, and the handles of the members of a list that are online, in the
  order of the list.
\<close>

definition new_emissions :: "world \<Rightarrow> world \<Rightarrow> emission list" where
  "new_emissions w w' = drop (length (outbox w)) (outbox w')"

definition socketOf :: "redis_service \<Rightarrow> user_id \<Rightarrow> socket_id" where
  "socketOf r u = the (getSocketByUser r u)"

definition membersOf :: "database \<Rightarrow> group_id \<Rightarrow> group_member list" where
  "membersOf d g = filter (\<lambda>m. member_groupId m = g) (groupMembers d)"

fun onlineSockets :: "redis_service \<Rightarrow> group_member list \<Rightarrow> socket_id list" where
  "onlineSockets r [] = []"
| "onlineSockets r (m # ms) =
     (if isUserOnline r (member_userId m) then socketOf r (member_userId m) # onlineSockets r ms
      else onlineSockets r ms)"

definition toRooms :: "socket_id list \<Rightarrow> string \<Rightarrow> payload \<Rightarrow> emission list" where
  "toRooms socks event data = map (\<lambda>s. Emit (Room s) event data) socks"

text \<open>
  The database as the companion generator reads it: with the recomputation started by
  the handler already landed (\<open>early\<close>) or still pending.
\<close>

definition generationDb :: "services \<Rightarrow> bool \<Rightarrow> database \<Rightarrow> user_id \<Rightarrow> database" where
  "generationDb sv early d1 u = (if early then run_task sv d1 (RecomputeUser u) else d1)"

text \<open>
  The emissions of the two stream handlers written as lists, case by case; the lemmas
  below show that the handlers emit exactly these.
\<close>

definition aiFriendFailed :: "client \<Rightarrow> emission" where
  "aiFriendFailed c = Emit (Client (client_id c)) ''ai-friend:error'' (ErrorP ''Failed to generate AI response'')"

definition groupAIFailed :: "client \<Rightarrow> emission" where
  "groupAIFailed c = Emit (Client (client_id c)) ''group:ai:error'' (ErrorP ''Failed to generate AI response'')"

fun friendChunkEmissions :: "socket_id \<Rightarrow> string \<Rightarrow> string list \<Rightarrow> emission list" where
  "friendChunkEmissions cid full [] = []"
| "friendChunkEmissions cid full (chunk # rest) =
     Emit (Client cid) ''ai-friend:stream-chunk'' (StreamChunkP chunk (full @ chunk))
     # friendChunkEmissions cid (full @ chunk) rest"

fun groupChunkEmissions :: "socket_id list \<Rightarrow> group_id \<Rightarrow> string \<Rightarrow> string list \<Rightarrow> emission list" where
  "groupChunkEmissions socks g full [] = []"
| "groupChunkEmissions socks g full (chunk # rest) =
     toRooms socks ''group:ai:stream-chunk'' (GroupStreamChunkP g chunk (full @ chunk))
     @ groupChunkEmissions socks g (full @ chunk) rest"

definition friendStreamTrace :: "services \<Rightarrow> database \<Rightarrow> client \<Rightarrow> user_id \<Rightarrow> string \<Rightarrow> emission list" where
  "friendStreamTrace sv d c u text =
     (case generateAIResponseStream sv d u text of
        Inl e \<Rightarrow> [aiFriendFailed c]
      | Inr gen \<Rightarrow>
          friendChunkEmissions (client_id c) [] (yielded gen)
          @ (case sendMessage d AI_FRIEND_USER_ID u (concat (yielded gen)) True of
               Inl e \<Rightarrow> [aiFriendFailed c]
             | Inr (aiMessage, d2) \<Rightarrow>
                 [Emit (Client (client_id c)) ''ai-friend:stream-end'' (StreamEndP aiMessage)]))"

definition friendMessageTrace :: "services \<Rightarrow> bool \<Rightarrow> world \<Rightarrow> client \<Rightarrow> string \<Rightarrow> emission list" where
  "friendMessageTrace sv early w c text =
     (if \<not> truthy (data_userId c) then []
      else case sendMessage (db w) (the (data_userId c)) AI_FRIEND_USER_ID text False of
             Inl e \<Rightarrow> [aiFriendFailed c]
           | Inr (userMessage, d1) \<Rightarrow>
               [Emit (Client (client_id c)) ''ai-friend:user-message-sent'' (MessageP userMessage),
                Emit (Client (client_id c)) ''ai-friend:stream-start'' (StreamStartP (msg_id userMessage))]
               @ friendStreamTrace sv (generationDb sv early d1 (the (data_userId c))) c (the (data_userId c)) text)"

definition groupStreamTrace ::
  "services \<Rightarrow> redis_service \<Rightarrow> database \<Rightarrow> client \<Rightarrow> group_id \<Rightarrow> string \<Rightarrow> group_member list \<Rightarrow> emission list" where
  "groupStreamTrace sv r d c g text ms =
     toRooms (onlineSockets r ms) ''group:ai:stream-start'' (GroupStreamStartP g (db_now d))
     @ (case generateGroupAIResponseStream sv d g text of
          Inl e \<Rightarrow> [groupAIFailed c]
        | Inr gen \<Rightarrow>
            groupChunkEmissions (onlineSockets r ms) g [] (yielded gen)
            @ (case sendGroupAIMessage d g (concat (yielded gen)) of
                 Inl e \<Rightarrow> [groupAIFailed c]
               | Inr (aiMessage, d3) \<Rightarrow>
                   toRooms (onlineSockets r ms) ''group:ai:stream-end'' (GroupStreamEndP g aiMessage)))"

definition groupMentionTrace ::
  "services \<Rightarrow> world \<Rightarrow> client \<Rightarrow> group_id \<Rightarrow> string \<Rightarrow> emission list" where
  "groupMentionTrace sv w c g text =
     (if \<not> truthy (data_userId c) then []
      else case isUserInGroup (db w) g (the (data_userId c)) of
             Inl e \<Rightarrow> [groupAIFailed c]
           | Inr isMember \<Rightarrow>
               if \<not> isMember
               then [Emit (Client (client_id c)) ''group:ai:error'' (ErrorP ''You are not a member of this group'')]
               else (case refreshGroupProfile sv (db w) g of
                       Inl e \<Rightarrow> [groupAIFailed c]
                     | Inr d1 \<Rightarrow>
                         (case getGroupMembers d1 g of
                            Inl e \<Rightarrow> [groupAIFailed c]
                          | Inr ms \<Rightarrow> groupStreamTrace sv (redis w) d1 c g text ms)))"

section \<open>A concrete deployment\<close>

text \<open>
  Two users, the companion account, one group with its agent member; Alice and Bob are
  connected. The provider streams three chunks, the second without content, and then
  finishes as \<open>fin\<close> says.
\<close>

definition sampleServices :: "finish \<Rightarrow> services" where
  "sampleServices fin =
     \<lparr>analyzeMessages = (\<lambda>ms. emptyAnalysis),
      generateStylePrompt = (\<lambda>a. ''Be brief.''),
      analyzeGroupMessages = (\<lambda>ms. emptyGroupAnalysis),
      generateGroupStylePrompt = (\<lambda>a ms. ''Be loud.''),
      completions_create = (\<lambda>prompt userMessage. ([Some ''Hel'', None, Some ''lo''], fin))\<rparr>"

definition directFrom :: "user_id \<Rightarrow> user_id \<Rightarrow> nat \<Rightarrow> message list" where
  "directFrom a b n =
     map (\<lambda>i. \<lparr>msg_id = i, fromUserId = a, toUserId = b, content = ''see you soon'', timestamp = i,
                isRead = True, isAIGenerated = False\<rparr>) [0..<n]"

definition postedIn :: "group_id \<Rightarrow> user_id \<Rightarrow> nat \<Rightarrow> group_message list" where
  "postedIn g a n =
     map (\<lambda>i. \<lparr>g_id = 100 + i, g_groupId = g, g_fromUserId = a, g_content = ''on my way'', g_timestamp = i,
                g_isAIGenerated = False, g_mentionedUserIds = []\<rparr>) [0..<n]"

definition sampleDb :: database where
  "sampleDb =
     \<lparr>reachable = True,
      users = [''alice'', ''bob'', ''kirhost'', ''group-ai-g1''],
      userProfile = [(''alice'', ''Alice''), (''bob'', ''Bob'')],
      groups = [''g1''],
      groupMembers =
        [\<lparr>member_groupId = ''g1'', member_userId = ''alice'', isAdmin = True\<rparr>,
         \<lparr>member_groupId = ''g1'', member_userId = ''bob'', isAdmin = False\<rparr>,
         \<lparr>member_groupId = ''g1'', member_userId = ''group-ai-g1'', isAdmin = False\<rparr>],
      messages = [], groupMessages = [], styleProfiles = [], groupStyleProfiles = [],
      next_id = 200, db_now = 1000\<rparr>"

definition userProfileOf :: "user_id \<Rightarrow> int \<Rightarrow> string option \<Rightarrow> style_profile" where
  "userProfileOf u n prompt =
     \<lparr>userId = u, messageCount = n, features = emptyAnalysis, stylePrompt = prompt, lastUpdated = 0\<rparr>"

definition groupProfileOf :: "group_id \<Rightarrow> int \<Rightarrow> string option \<Rightarrow> group_style_profile" where
  "groupProfileOf g n prompt =
     \<lparr>gp_groupId = g, gp_messageCount = n, gp_features = emptyGroupAnalysis, gp_stylePrompt = prompt,
      gp_lastUpdated = 0\<rparr>"

definition sampleRedis :: redis_service where
  "sampleRedis = apply_events (Some Map.empty) [Register ''alice'' ''sA'', Register ''bob'' ''sB'']"

definition sampleWorld :: "database \<Rightarrow> world" where
  "sampleWorld d = \<lparr>redis = sampleRedis, db = d, outbox = [], pending = []\<rparr>"

definition aliceClient :: client where
  "aliceClient = \<lparr>client_id = ''sA'', data_userId = Some ''alice'', connected = True\<rparr>"

definition learnedDb :: database where
  "learnedDb =
     sampleDb\<lparr>messages := directFrom ''alice'' ''bob'' 12,
              styleProfiles := [userProfileOf ''alice'' 12 (Some ''Be brief.'')]\<rparr>"

definition groupDb :: database where
  "groupDb =
     sampleDb\<lparr>groupMessages := postedIn ''g1'' ''alice'' 20,
              groupStyleProfiles := [groupProfileOf ''g1'' 20 (Some ''Be loud.'')]\<rparr>"

text \<open>
  A database where the table of group messages also holds rows of another group and a
  generated row: 19 eligible messages of \<open>g1\<close> among 22 rows.
\<close>

definition mixedGroupDb :: database where
  "mixedGroupDb =
     sampleDb\<lparr>groups := [''g1'', ''g2''],
              groupMessages :=
                postedIn ''g1'' ''alice'' 19
                @ [\<lparr>g_id = 150, g_groupId = ''g2'', g_fromUserId = ''bob'', g_content = ''elsewhere'',
                    g_timestamp = 30, g_isAIGenerated = False, g_mentionedUserIds = []\<rparr>,
                   \<lparr>g_id = 151, g_groupId = ''g2'', g_fromUserId = ''bob'', g_content = ''still elsewhere'',
                    g_timestamp = 31, g_isAIGenerated = False, g_mentionedUserIds = []\<rparr>,
                   \<lparr>g_id = 152, g_groupId = ''g1'', g_fromUserId = ''group-ai-g1'', g_content = ''on my way too'',
                    g_timestamp = 32, g_isAIGenerated = True, g_mentionedUserIds = []\<rparr>],
              groupStyleProfiles := [groupProfileOf ''g1'' 3 (Some ''Be loud.'')]\<rparr>"

definition helloMessage :: message where
  "helloMessage =
     \<lparr>msg_id = 200, fromUserId = ''alice'', toUserId = ''bob'', content = ''hello'', timestamp = 1000,
      isRead = False, isAIGenerated = False\<rparr>"

definition helloGroupMessage :: group_message where
  "helloGroupMessage =
     \<lparr>g_id = 200, g_groupId = ''g1'', g_fromUserId = ''alice'', g_content = ''hello @bob'',
      g_timestamp = 1000, g_isAIGenerated = False, g_mentionedUserIds = [''bob'']\<rparr>"

definition askMessage :: message where
  "askMessage =
     \<lparr>msg_id = 200, fromUserId = ''alice'', toUserId = ''kirhost'', content = ''hi'', timestamp = 1000,
      isRead = False, isAIGenerated = False\<rparr>"

definition replyMessage :: message where
  "replyMessage =
     \<lparr>msg_id = 201, fromUserId = ''kirhost'', toUserId = ''alice'', content = ''Hello'', timestamp = 1000,
      isRead = False, isAIGenerated = True\<rparr>"

definition groupReplyMessage :: group_message where
  "groupReplyMessage =
     \<lparr>g_id = 200, g_groupId = ''g1'', g_fromUserId = ''group-ai-g1'', g_content = ''Hello'',
      g_timestamp = 1000, g_isAIGenerated = True, g_mentionedUserIds = []\<rparr>"

section \<open>Basic facts\<close>

lemmas sample_defs = sampleDb_def sampleWorld_def sampleRedis_def aliceClient_def sampleServices_def
  directFrom_def postedIn_def userProfileOf_def groupProfileOf_def emptyAnalysis_def emptyGroupAnalysis_def
  learnedDb_def groupDb_def

lemmas model_defs = select_def await_def sendMessage_def sendGroupMessage_def isUserInGroup_def
  getGroupMembers_def getStyleProfile_def getGroupStyleProfile_def shouldUpdateProfile_def
  shouldUpdateGroupProfile_def updateStyleProfile_def updateGroupStyleProfile_def hasMinimumData_def
  groupHasMinimumData_def generateAIResponseStream_def generateGroupAIResponseStream_def provider_stream_def
  sendGroupAIMessage_def getGroupAIUserId_def emit_def emitToUser_def handleMessageSend_def
  handleAIFriendMessage_def aiFriendStream_def aiFriendError_def handleGroupMessageSend_def
  routeGroupMessage_def groupMessageError_def handleGroupAIMention_def groupAIStream_def groupAIError_def
  refreshGroupProfile_def start_task_def setUserOnline_def setUserOffline_def getSocketByUser_def
  getUserBySocket_def isUserOnline_def user_key_def socket_key_def userDirectMessages_def
  userGroupMessages_def eligibleGroupMessages_def AI_FRIEND_USER_ID_def MINIMUM_MESSAGES_REQUIRED_def
  GROUP_MINIMUM_MESSAGES_REQUIRED_def UPDATE_INTERVAL_def extractMentions_def handleConnection_def
  handleDisconnect_def

lemmas view_defs = new_emissions_def emitted_def received_def storedProfile_def storedGroupProfile_def
  eligibleCount_def groupEligibleCount_def recordedCount_def groupRecordedCount_def
  shouldRecompute_spec_def socketOf_def membersOf_def generationDb_def toRooms_def

subsection \<open>Presence registry\<close>

lemma mentions_hello_bob: "extractMentions ''hello @bob'' = [''bob'']"
  by (simp add: extractMentions_def word_char_def)

lemma user_key_eq [simp]: "(user_key u = user_key v) = (u = v)"
  by (simp add: user_key_def)

lemma user_key_neq_socket_key [simp]: "user_key u \<noteq> socket_key s" "socket_key s \<noteq> user_key u"
  by (simp_all add: user_key_def socket_key_def)

lemma online_after_register:
  "isUserOnline (setUserOnline (Some kv) u s) v = (if v = u then s \<noteq> [] else isUserOnline (Some kv) v)"
  by (simp add: isUserOnline_def setUserOnline_def)

lemma online_after_deregister:
  "isUserOnline (setUserOffline (Some kv) u) v = (v \<noteq> u \<and> isUserOnline (Some kv) v)"
  by (auto simp: isUserOnline_def setUserOffline_def Let_def)

lemma apply_event_configured: "\<exists>kv'. apply_event (Some kv) e = Some kv'"
  by (cases e) (simp_all add: setUserOnline_def setUserOffline_def Let_def)

lemma online_after_event:
  "isUserOnline (apply_event (Some kv) e) u =
     (if subject e = u then (case e of Register v s \<Rightarrow> s \<noteq> [] | Deregister v \<Rightarrow> False)
      else isUserOnline (Some kv) u)"
  by (cases e) (auto simp: online_after_register online_after_deregister)

lemma online_after_events:
  "isUserOnline (apply_events (Some kv) es) u =
     (case most_recent u es of
        None \<Rightarrow> isUserOnline (Some kv) u
      | Some (Register v s) \<Rightarrow> s \<noteq> []
      | Some (Deregister v) \<Rightarrow> False)"
proof (induction es arbitrary: kv)
  case Nil
  show ?case by simp
next
  case (Cons e es)
  obtain kv' where kv': "apply_event (Some kv) e = Some kv'"
    using apply_event_configured by blast
  have step: "isUserOnline (Some kv') u =
      (if subject e = u then (case e of Register v s \<Rightarrow> s \<noteq> [] | Deregister v \<Rightarrow> False)
       else isUserOnline (Some kv) u)"
    using online_after_event[of kv e u] by (simp only: kv')
  have "isUserOnline (apply_events (Some kv) (e # es)) u = isUserOnline (apply_events (Some kv') es) u"
    by (simp only: apply_events.simps kv')
  also have "\<dots> = (case most_recent u es of
        None \<Rightarrow> isUserOnline (Some kv') u
      | Some (Register v s) \<Rightarrow> s \<noteq> []
      | Some (Deregister v) \<Rightarrow> False)"
    by (rule Cons.IH)
  also have "\<dots> = (case most_recent u (e # es) of
        None \<Rightarrow> isUserOnline (Some kv) u
      | Some (Register v s) \<Rightarrow> s \<noteq> []
      | Some (Deregister v) \<Rightarrow> False)"
    using step by (cases e) (auto split: option.splits conn_event.splits)
  finally show ?case .
qed

lemma most_recent_nonempty:
  "handles_nonempty es \<Longrightarrow> most_recent u es = Some (Register v s) \<Longrightarrow> s \<noteq> []"
  by (induction es rule: handles_nonempty.induct) (auto split: option.splits if_splits)

lemma apply_event_None: "apply_event None e = None"
  by (cases e) (simp_all add: setUserOnline_def setUserOffline_def)

lemma apply_events_None: "apply_events None es = None"
  by (induction es) (simp_all add: apply_event_None)

lemma handleConnection_registers:
  "redis (fst (handleConnection w c (Some u))) = apply_event (redis w) (Register u (client_id c))"
  by (simp add: handleConnection_def emit_def)

lemma handleDisconnect_deregisters:
  "truthy (data_userId c) \<Longrightarrow>
   redis (handleDisconnect w c) = apply_event (redis w) (Deregister (the (data_userId c)))"
  by (simp add: handleDisconnect_def emit_def)

lemma online_iff_socket: "isUserOnline r u = truthy (getSocketByUser r u)"
  by (simp add: isUserOnline_def getSocketByUser_def split: option.splits)

subsection \<open>Queries and the scheduler\<close>

lemma select_reachable [simp]: "reachable d \<Longrightarrow> select d x = Inr x"
  by (simp add: select_def)

lemma select_unreachable [simp]: "\<not> reachable d \<Longrightarrow> select d x = Inl DatabaseError"
  by (simp add: select_def)

lemma await_Inr [simp]: "await (Inr x) k = k x"
  by (simp add: await_def)

lemma await_Inl [simp]: "await (Inl e) k = Inl e"
  by (simp add: await_def)

lemma getStyleProfile_stored: "reachable d \<Longrightarrow> getStyleProfile d u = Inr (storedProfile d u)"
  by (simp add: getStyleProfile_def storedProfile_def)

lemma getGroupStyleProfile_stored:
  "reachable d \<Longrightarrow> getGroupStyleProfile d g =
     Inr (map_option (\<lambda>p. p\<lparr>gp_messageCount := groupEligibleCount d g\<rparr>) (storedGroupProfile d g))"
  by (simp add: getGroupStyleProfile_def storedGroupProfile_def groupEligibleCount_def split: list.splits)

lemma shouldUpdateProfile_eq:
  "reachable d \<Longrightarrow> shouldUpdateProfile d u =
     Inr (case storedProfile d u of None \<Rightarrow> True | Some p \<Rightarrow> eligibleCount d u - messageCount p \<ge> 10)"
  by (auto simp: shouldUpdateProfile_def getStyleProfile_stored eligibleCount_def Let_def split: option.splits)

lemma shouldUpdateGroupProfile_eq:
  "reachable d \<Longrightarrow> shouldUpdateGroupProfile d g =
     Inr (case storedGroupProfile d g of None \<Rightarrow> groupEligibleCount d g \<ge> 20 | Some p \<Rightarrow> False)"
  by (auto simp: shouldUpdateGroupProfile_def getGroupStyleProfile_stored groupEligibleCount_def Let_def UPDATE_INTERVAL_def
      split: option.splits)

lemma shouldUpdateGroupProfile_unreachable:
  "\<not> reachable d \<Longrightarrow> shouldUpdateGroupProfile d g = Inl DatabaseError"
  by (simp add: shouldUpdateGroupProfile_def getGroupStyleProfile_def)

lemma group_recompute_only_once:
  "reachable d \<Longrightarrow> storedGroupProfile d g = Some p \<Longrightarrow> shouldUpdateGroupProfile d g = Inr False"
  by (simp add: shouldUpdateGroupProfile_eq)

lemma hasMinimumData_eq:
  "reachable d \<Longrightarrow> hasMinimumData d u =
     Inr (case storedProfile d u of None \<Rightarrow> False | Some p \<Rightarrow> messageCount p \<ge> 10)"
  by (simp add: hasMinimumData_def getStyleProfile_stored MINIMUM_MESSAGES_REQUIRED_def split: option.splits)

lemma groupHasMinimumData_eq:
  "reachable d \<Longrightarrow> groupHasMinimumData d g =
     Inr (case storedGroupProfile d g of None \<Rightarrow> False | Some p \<Rightarrow> groupEligibleCount d g \<ge> 20)"
  by (simp add: groupHasMinimumData_def getGroupStyleProfile_stored GROUP_MINIMUM_MESSAGES_REQUIRED_def
      split: option.splits)

lemma first_updated:
  "userId pd = u \<Longrightarrow> filter (\<lambda>p. userId p = u) xs \<noteq> [] \<Longrightarrow>
   \<exists>rest. filter (\<lambda>p. userId p = u) (map (\<lambda>p. if userId p = u then pd else p) xs) = pd # rest"
  by (induction xs) auto

lemma sent_count:
  "filter (\<lambda>x. (fromUserId x = u \<or> toUserId x = u) \<and> \<not> isAIGenerated x \<and> fromUserId x = u) ms
     = filter (\<lambda>m. fromUserId m = u \<and> \<not> isAIGenerated m) ms"
  by (rule filter_cong) auto

lemma updateStyleProfile_records:
  assumes "updateStyleProfile sv d u = Inr (p, d1)"
  shows "storedProfile d1 u = Some p \<and> messageCount p = eligibleCount d u \<and> reachable d1"
proof -
  have r: "reachable d"
    using assms by (cases "reachable d") (simp_all add: updateStyleProfile_def)
  show ?thesis
  proof (cases "filter (\<lambda>p. userId p = u) (styleProfiles d) = []")
    case True
    with assms r show ?thesis
      by (auto simp: updateStyleProfile_def Let_def storedProfile_def eligibleCount_def sent_count
          userDirectMessages_def split: if_splits)
  next
    case False
    with assms r have p: "userId p = u" and
      d1: "styleProfiles d1 = map (\<lambda>q. if userId q = u then p else q) (styleProfiles d)"
      and c: "messageCount p = eligibleCount d u" and r1: "reachable d1"
      by (auto simp: updateStyleProfile_def Let_def eligibleCount_def sent_count userDirectMessages_def)
    from first_updated[OF p False] d1 have "storedProfile d1 u = Some p"
      by (auto simp: storedProfile_def)
    with c r1 show ?thesis by simp
  qed
qed

lemma updateStyleProfile_Inr:
  "updateStyleProfile sv d u = Inr (p, d1) \<Longrightarrow>
     reachable d1 = reachable d \<and> users d1 = users d \<and> groups d1 = groups d
     \<and> groupMembers d1 = groupMembers d \<and> messages d1 = messages d \<and> groupMessages d1 = groupMessages d
     \<and> next_id d1 = next_id d \<and> db_now d1 = db_now d"
  by (cases "reachable d") (auto simp: updateStyleProfile_def Let_def split: if_splits)

lemma updateGroupStyleProfile_Inr:
  "updateGroupStyleProfile sv d g = Inr (p, d1) \<Longrightarrow>
     reachable d1 = reachable d \<and> users d1 = users d \<and> groups d1 = groups d
     \<and> groupMembers d1 = groupMembers d \<and> messages d1 = messages d \<and> groupMessages d1 = groupMessages d"
  by (cases "reachable d") (auto simp: updateGroupStyleProfile_def Let_def split: if_splits)

lemma refreshGroupProfile_Inr:
  "refreshGroupProfile sv d g = Inr d1 \<Longrightarrow>
     reachable d1 = reachable d \<and> users d1 = users d \<and> groups d1 = groups d
     \<and> groupMembers d1 = groupMembers d \<and> messages d1 = messages d \<and> groupMessages d1 = groupMessages d"
proof (cases "reachable d")
  case False
  assume "refreshGroupProfile sv d g = Inr d1"
  with False show ?thesis
    by (simp add: refreshGroupProfile_def shouldUpdateGroupProfile_unreachable)
next
  case True
  assume r: "refreshGroupProfile sv d g = Inr d1"
  show ?thesis
  proof (cases "updateGroupStyleProfile sv d g")
    case (Inl e)
    with r True show ?thesis
      by (auto simp: refreshGroupProfile_def shouldUpdateGroupProfile_eq split: if_splits)
  next
    case (Inr res)
    obtain p d2 where res: "res = (p, d2)" by (cases res)
    from updateGroupStyleProfile_Inr[of sv d g p d2] Inr res r True show ?thesis
      by (auto simp: refreshGroupProfile_def shouldUpdateGroupProfile_eq split: if_splits)
  qed
qed

lemma run_task_user_frame:
  "reachable (run_task sv d (RecomputeUser u)) = reachable d
   \<and> users (run_task sv d (RecomputeUser u)) = users d
   \<and> messages (run_task sv d (RecomputeUser u)) = messages d
   \<and> groupMessages (run_task sv d (RecomputeUser u)) = groupMessages d
   \<and> next_id (run_task sv d (RecomputeUser u)) = next_id d
   \<and> db_now (run_task sv d (RecomputeUser u)) = db_now d"
  by (auto split: sum.splits bool.splits dest: updateStyleProfile_Inr)

lemma generationDb_frame:
  "reachable (generationDb sv early d u) = reachable d
   \<and> users (generationDb sv early d u) = users d
   \<and> messages (generationDb sv early d u) = messages d
   \<and> next_id (generationDb sv early d u) = next_id d
   \<and> db_now (generationDb sv early d u) = db_now d"
  using run_task_user_frame[of sv d u] by (simp add: generationDb_def)

subsection \<open>Inserts and membership\<close>

lemma sendMessage_Inr:
  "sendMessage d f t txt ai = Inr (m, d1) \<Longrightarrow>
     content m = txt \<and> isAIGenerated m = ai \<and> fromUserId m = f \<and> toUserId m = t
     \<and> messages d1 = messages d @ [m] \<and> groupMessages d1 = groupMessages d"
  by (auto simp: sendMessage_def Let_def split: if_splits)

lemma sendMessage_Inr_pre:
  "sendMessage d f t txt ai = Inr (m, d1) \<Longrightarrow>
     reachable d \<and> f \<in> set (users d) \<and> t \<in> set (users d) \<and> reachable d1 \<and> users d1 = users d"
  by (auto simp: sendMessage_def Let_def split: if_splits)

lemma sendMessage_succeeds:
  "reachable d \<Longrightarrow> f \<in> set (users d) \<Longrightarrow> t \<in> set (users d) \<Longrightarrow>
   sendMessage d f t txt ai =
     Inr (\<lparr>msg_id = next_id d, fromUserId = f, toUserId = t, content = txt, timestamp = db_now d,
           isRead = False, isAIGenerated = ai\<rparr>,
          d\<lparr>messages := messages d @ [\<lparr>msg_id = next_id d, fromUserId = f, toUserId = t, content = txt,
                timestamp = db_now d, isRead = False, isAIGenerated = ai\<rparr>],
            next_id := Suc (next_id d)\<rparr>)"
  by (simp add: sendMessage_def Let_def)

lemma sendGroupMessage_Inr:
  "sendGroupMessage d g s t ai = Inr (m, d1) \<Longrightarrow>
     reachable d \<and> g \<in> set (groups d) \<and> reachable d1 \<and> groups d1 = groups d \<and> groupMembers d1 = groupMembers d"
  by (auto simp: sendGroupMessage_def Let_def split: if_splits)

lemma sendGroupMessage_succeeds:
  "reachable d \<Longrightarrow> g \<in> set (groups d) \<Longrightarrow> f \<in> set (users d) \<Longrightarrow>
   sendGroupMessage d g f txt ai =
     Inr (\<lparr>g_id = next_id d, g_groupId = g, g_fromUserId = f, g_content = txt, g_timestamp = db_now d,
           g_isAIGenerated = ai, g_mentionedUserIds = extractMentions txt\<rparr>,
          d\<lparr>groupMessages := groupMessages d @ [\<lparr>g_id = next_id d, g_groupId = g, g_fromUserId = f,
                g_content = txt, g_timestamp = db_now d, g_isAIGenerated = ai,
                g_mentionedUserIds = extractMentions txt\<rparr>],
            next_id := Suc (next_id d)\<rparr>)"
  by (simp add: sendGroupMessage_def Let_def)

lemma sendGroupAIMessage_Inr:
  "sendGroupAIMessage d g txt = Inr (m, d1) \<Longrightarrow>
     g_content m = txt \<and> g_isAIGenerated m \<and> g_groupId m = g \<and> groupMessages d1 = groupMessages d @ [m]
     \<and> messages d1 = messages d"
  by (auto simp: sendGroupAIMessage_def sendGroupMessage_def Let_def split: if_splits)

lemma isUserInGroup_Inr: "isUserInGroup d g u = Inr b \<Longrightarrow> reachable d"
  by (cases "reachable d") (simp_all add: isUserInGroup_def)

lemma getGroupMembers_eq:
  "reachable d \<Longrightarrow> g \<in> set (groups d) \<Longrightarrow> getGroupMembers d g = Inr (membersOf d g)"
  by (auto simp: getGroupMembers_def membersOf_def filter_empty_conv)

lemma getGroupMembers_Inr: "getGroupMembers d g = Inr ms \<Longrightarrow> ms = membersOf d g"
  by (cases "reachable d") (auto simp: getGroupMembers_def membersOf_def split: if_splits)

subsection \<open>Emissions\<close>

lemma emit_outbox [simp]: "outbox (emit w t e p) = outbox w @ [Emit t e p]"
  and emit_db [simp]: "db (emit w t e p) = db w"
  and emit_redis [simp]: "redis (emit w t e p) = redis w"
  and emit_pending [simp]: "pending (emit w t e p) = pending w"
  by (simp_all add: emit_def)

lemma new_emissions_append [simp]: "outbox w' = outbox w @ xs \<Longrightarrow> new_emissions w w' = xs"
  by (simp add: new_emissions_def)

lemma start_task_outbox [simp]: "outbox (start_task sv early w t) = outbox w"
  by (simp add: start_task_def)

lemma emitToUser_fst:
  "fst (emitToUser w u e p) = (if isUserOnline (redis w) u then emit w (Room (socketOf (redis w) u)) e p else w)"
  by (simp add: emitToUser_def online_iff_socket socketOf_def Let_def)

lemma emitToOthers_redis [simp]: "redis (emitToOthers w s ms e p) = redis w"
  by (induction ms arbitrary: w) (simp_all add: emitToUser_fst)

lemma emitToOthers_db [simp]: "db (emitToOthers w s ms e p) = db w"
  by (induction ms arbitrary: w) (simp_all add: emitToUser_fst)

lemma emitToOthers_pending [simp]: "pending (emitToOthers w s ms e p) = pending w"
  by (induction ms arbitrary: w) (simp_all add: emitToUser_fst)

lemma emitToOthers_outbox:
  "outbox (emitToOthers w s ms e p) =
     outbox w @ map (\<lambda>m. Emit (Room (socketOf (redis w) (member_userId m))) e p)
                    (filter (\<lambda>m. member_userId m \<noteq> s \<and> isUserOnline (redis w) (member_userId m)) ms)"
  by (induction ms arbitrary: w) (simp_all add: emitToUser_fst)

lemma rooms_append [simp]: "rooms (xs @ ys) = rooms xs \<union> rooms ys"
  by (induction xs rule: rooms.induct) auto

lemma rooms_map_Room [simp]: "rooms (map (\<lambda>m. Emit (Room (f m)) e p) ms) = f ` set ms"
  by (induction ms) auto

lemma emitted_append [simp]: "emitted e (xs @ ys) = emitted e xs @ emitted e ys"
  by (simp add: emitted_def)

lemma emitted_Cons [simp]:
  "emitted e (Emit t e' p # xs) = (if e' = e then Emit t e' p # emitted e xs else emitted e xs)"
  by (simp add: emitted_def)

lemma emitted_Nil [simp]: "emitted e [] = []"
  by (simp add: emitted_def)

lemma received_append [simp]: "received s e (xs @ ys) = received s e xs @ received s e ys"
  by (simp add: received_def)

lemma received_Nil [simp]: "received s e [] = []"
  by (simp add: received_def)

lemma received_Cons [simp]:
  "received s e (Emit t e' p # xs) = (if e' = e \<and> reaches s t then p # received s e xs else received s e xs)"
  by (simp add: received_def)

lemma received_toRooms:
  "received s e (toRooms socks e' p) = (if e' = e then map (\<lambda>_. p) (filter (\<lambda>x. x = s) socks) else [])"
  by (induction socks) (auto simp: toRooms_def)

lemma set_toRooms: "set (toRooms socks e p) = (\<lambda>s. Emit (Room s) e p) ` set socks"
  by (simp add: toRooms_def)

lemma emitted_toRooms:
  "emitted e (toRooms socks e' p) = (if e' = e then toRooms socks e' p else [])"
  by (induction socks) (auto simp: toRooms_def)

lemma filter_eq_distinct: "distinct xs \<Longrightarrow> s \<in> set xs \<Longrightarrow> filter (\<lambda>x. x = s) xs = [s]"
  by (induction xs) (auto simp: filter_empty_conv)

lemma routeGroupMessage_outbox:
  assumes "sendGroupMessage (db w) g sender body False = Inr (m, d1)"
  shows "outbox (routeGroupMessage w c sender g body) =
           outbox w
           @ map (\<lambda>x. Emit (Room (socketOf (redis w) (member_userId x))) ''group:message:receive'' (GroupMessageP m))
                 (filter (\<lambda>x. member_userId x \<noteq> sender \<and> isUserOnline (redis w) (member_userId x))
                         (membersOf (db w) g))
           @ [Emit (Client (client_id c)) ''group:message:sent'' (GroupMessageP m)]"
proof -
  from sendGroupMessage_Inr[OF assms]
  have "getGroupMembers d1 g = Inr (membersOf (db w) g)"
    by (simp add: getGroupMembers_eq membersOf_def)
  then show ?thesis
    using assms by (simp add: routeGroupMessage_def emitToOthers_outbox Let_def)
qed

lemma emitToMembers_eq:
  "emitToMembers w ms e p = w\<lparr>outbox := outbox w @ toRooms (onlineSockets (redis w) ms) e p\<rparr>"
  by (induction ms arbitrary: w) (simp_all add: emitToUser_fst toRooms_def emit_def)

subsection \<open>The stream handlers emit their traces\<close>

lemma forwardChunks_friend:
  "forwardChunks w cid full cs =
     (w\<lparr>outbox := outbox w @ friendChunkEmissions cid full cs\<rparr>, full @ concat cs)"
  by (induction cs arbitrary: w full) (simp_all add: emit_def)

lemma aiFriendStream_trace:
  "outbox (aiFriendStream sv w c u body) = outbox w @ friendStreamTrace sv (db w) c u body"
  by (simp add: aiFriendStream_def friendStreamTrace_def forwardChunks_friend aiFriendError_def
      aiFriendFailed_def split: sum.splits prod.splits)

lemma aiFriendStream_db:
  "db (aiFriendStream sv w c u body) =
     (case generateAIResponseStream sv (db w) u body of
        Inl e \<Rightarrow> db w
      | Inr gen \<Rightarrow>
          (case sendMessage (db w) AI_FRIEND_USER_ID u (concat (yielded gen)) True of
             Inl e \<Rightarrow> db w
           | Inr (aiMessage, d2) \<Rightarrow> d2))"
  by (simp add: aiFriendStream_def forwardChunks_friend aiFriendError_def split: sum.splits prod.splits)

lemma handleAIFriendMessage_trace:
  "outbox (handleAIFriendMessage sv early w c body) = outbox w @ friendMessageTrace sv early w c body"
  by (simp add: handleAIFriendMessage_def friendMessageTrace_def aiFriendStream_trace aiFriendError_def
      aiFriendFailed_def start_task_def generationDb_def Let_def split: sum.splits prod.splits)

lemma handleAIFriendMessage_db:
  "truthy (data_userId c) \<Longrightarrow>
   sendMessage (db w) (the (data_userId c)) AI_FRIEND_USER_ID body False = Inr (um, d1) \<Longrightarrow>
   db (handleAIFriendMessage sv early w c body) =
     db (aiFriendStream sv (w\<lparr>db := generationDb sv early d1 (the (data_userId c))\<rparr>) c (the (data_userId c)) body)"
  by (simp add: handleAIFriendMessage_def aiFriendStream_db start_task_def generationDb_def Let_def
      split: sum.splits prod.splits)

lemma friendChunks_event: "x \<in> set (friendChunkEmissions cid full cs) \<Longrightarrow> event_of x = ''ai-friend:stream-chunk''"
  by (induction cs arbitrary: full) auto

lemma friendChunks_text:
  "map (chunk_text \<circ> payload_of) (emitted ''ai-friend:stream-chunk'' (friendChunkEmissions cid full cs)) = cs"
  by (induction cs arbitrary: full) (simp_all add: emitted_def)

lemma emitted_friendChunks:
  "emitted e (friendChunkEmissions cid full cs) =
     (if e = ''ai-friend:stream-chunk'' then friendChunkEmissions cid full cs else [])"
  by (induction cs arbitrary: full) auto

lemma map_text_friendChunks:
  "map (chunk_text \<circ> payload_of) (friendChunkEmissions cid full cs) = cs"
  by (induction cs arbitrary: full) auto

lemma friendStreamTrace_end:
  assumes "Emit t ''ai-friend:stream-end'' (StreamEndP m) \<in> set (friendStreamTrace sv d c u body)"
  shows "concat (map (chunk_text \<circ> payload_of) (emitted ''ai-friend:stream-chunk'' (friendStreamTrace sv d c u body)))
           = content m"
proof (cases "generateAIResponseStream sv d u body")
  case (Inl e)
  with assms show ?thesis by (simp add: friendStreamTrace_def aiFriendFailed_def)
next
  case (Inr gen)
  show ?thesis
  proof (cases "sendMessage d AI_FRIEND_USER_ID u (concat (yielded gen)) True")
    case (Inl e)
    with Inr assms show ?thesis
      by (auto simp: friendStreamTrace_def aiFriendFailed_def dest: friendChunks_event)
  next
    case (Inr res)
    obtain ai d2 where res: "res = (ai, d2)" by (cases res)
    from assms \<open>generateAIResponseStream sv d u body = Inr gen\<close> Inr res
    have m: "m = ai"
      by (auto simp: friendStreamTrace_def dest: friendChunks_event)
    have "content ai = concat (yielded gen)"
      using sendMessage_Inr Inr res by blast
    then show ?thesis
      using \<open>generateAIResponseStream sv d u body = Inr gen\<close> Inr res m
      by (simp add: friendStreamTrace_def friendChunks_text)
  qed
qed

lemma friendMessageTrace_completed:
  assumes "Emit t ''ai-friend:stream-end'' p \<in> set (friendMessageTrace sv early w c body)"
  shows "\<exists>um d1. sendMessage (db w) (the (data_userId c)) AI_FRIEND_USER_ID body False = Inr (um, d1)
           \<and> truthy (data_userId c)
           \<and> friendMessageTrace sv early w c body =
               [Emit (Client (client_id c)) ''ai-friend:user-message-sent'' (MessageP um),
                Emit (Client (client_id c)) ''ai-friend:stream-start'' (StreamStartP (msg_id um))]
               @ friendStreamTrace sv (generationDb sv early d1 (the (data_userId c))) c (the (data_userId c)) body
           \<and> Emit t ''ai-friend:stream-end'' p
               \<in> set (friendStreamTrace sv (generationDb sv early d1 (the (data_userId c))) c (the (data_userId c)) body)"
  using assms
  by (auto simp: friendMessageTrace_def aiFriendFailed_def split: if_splits sum.splits)

lemma forwardGroupChunks_eq:
  "forwardGroupChunks w ms g full cs =
     (w\<lparr>outbox := outbox w @ groupChunkEmissions (onlineSockets (redis w) ms) g full cs\<rparr>, full @ concat cs)"
  by (induction cs arbitrary: w full) (simp_all add: emitToMembers_eq)

lemma groupAIStream_outbox:
  "outbox (groupAIStream sv w c g body ms) = outbox w @ groupStreamTrace sv (redis w) (db w) c g body ms"
  by (simp add: groupAIStream_def groupStreamTrace_def emitToMembers_eq forwardGroupChunks_eq
      groupAIError_def groupAIFailed_def Let_def split: sum.splits prod.splits)

lemma groupAIStream_db:
  "db (groupAIStream sv w c g body ms) =
     (case generateGroupAIResponseStream sv (db w) g body of
        Inl e \<Rightarrow> db w
      | Inr gen \<Rightarrow>
          (case sendGroupAIMessage (db w) g (concat (yielded gen)) of
             Inl e \<Rightarrow> db w
           | Inr (aiMessage, d3) \<Rightarrow> d3))"
  by (simp add: groupAIStream_def emitToMembers_eq forwardGroupChunks_eq groupAIError_def Let_def
      split: sum.splits prod.splits)

lemma handleGroupAIMention_outbox:
  "outbox (handleGroupAIMention sv w c g body) = outbox w @ groupMentionTrace sv w c g body"
  by (simp add: handleGroupAIMention_def groupMentionTrace_def groupAIStream_outbox groupAIError_def
      groupAIFailed_def Let_def split: sum.splits)

lemma received_groupChunks:
  "filter (\<lambda>x. x = s) socks = [s] \<Longrightarrow>
   map chunk_text (received s ''group:ai:stream-chunk'' (groupChunkEmissions socks g full cs)) = cs"
  by (induction cs arbitrary: full) (simp_all add: received_toRooms)

lemma set_groupChunks: "x \<in> set (groupChunkEmissions socks g full cs) \<Longrightarrow> event_of x = ''group:ai:stream-chunk''"
  by (induction cs arbitrary: full) (auto simp: set_toRooms)

lemma emitted_groupChunks:
  "emitted e (groupChunkEmissions socks g full cs) =
     (if e = ''group:ai:stream-chunk'' then groupChunkEmissions socks g full cs else [])"
  by (induction cs arbitrary: full) (simp_all add: emitted_toRooms)

lemma groupStreamTrace_end:
  assumes "Emit (Room s) ''group:ai:stream-end'' (GroupStreamEndP g' m) \<in> set (groupStreamTrace sv r d c g body ms)"
    and "distinct (onlineSockets r ms)"
  shows "concat (map chunk_text (received s ''group:ai:stream-chunk'' (groupStreamTrace sv r d c g body ms)))
           = g_content m"
proof (cases "generateGroupAIResponseStream sv d g body")
  case (Inl e)
  with assms(1) show ?thesis
    by (auto simp: groupStreamTrace_def set_toRooms groupAIFailed_def)
next
  case (Inr gen)
  show ?thesis
  proof (cases "sendGroupAIMessage d g (concat (yielded gen))")
    case (Inl e)
    with Inr assms(1) show ?thesis
      by (auto simp: groupStreamTrace_def set_toRooms groupAIFailed_def dest: set_groupChunks)
  next
    case (Inr res)
    obtain ai d3 where res: "res = (ai, d3)" by (cases res)
    from assms(1) \<open>generateGroupAIResponseStream sv d g body = Inr gen\<close> Inr res
    have "s \<in> set (onlineSockets r ms) \<and> m = ai"
      by (auto simp: groupStreamTrace_def set_toRooms groupAIFailed_def dest: set_groupChunks)
    then have one: "filter (\<lambda>x. x = s) (onlineSockets r ms) = [s]" and m: "m = ai"
      using assms(2) by (simp_all add: filter_eq_distinct)
    have "g_content ai = concat (yielded gen)"
      using sendGroupAIMessage_Inr Inr res by blast
    then show ?thesis
      using \<open>generateGroupAIResponseStream sv d g body = Inr gen\<close> Inr res m
      by (simp add: groupStreamTrace_def received_toRooms received_groupChunks[OF one])
  qed
qed

lemma groupMentionTrace_completed:
  assumes "Emit (Room s) ''group:ai:stream-end'' p \<in> set (groupMentionTrace sv w c g body)"
  shows "\<exists>d1. refreshGroupProfile sv (db w) g = Inr d1
              \<and> groupMentionTrace sv w c g body
                  = groupStreamTrace sv (redis w) d1 c g body (membersOf (db w) g)"
proof -
  from assms have t: "truthy (data_userId c)"
    by (auto simp: groupMentionTrace_def split: if_splits)
  from assms t have m: "isUserInGroup (db w) g (the (data_userId c)) = Inr True"
    by (auto simp: groupMentionTrace_def groupAIFailed_def split: sum.splits if_splits)
  from assms t m obtain d1 where d1: "refreshGroupProfile sv (db w) g = Inr d1"
    by (auto simp: groupMentionTrace_def groupAIFailed_def split: sum.splits)
  from assms t m d1 obtain ms where ms: "getGroupMembers d1 g = Inr ms"
    by (auto simp: groupMentionTrace_def groupAIFailed_def split: sum.splits)
  have "ms = membersOf (db w) g"
    using getGroupMembers_Inr[OF ms] refreshGroupProfile_Inr[OF d1] by (simp add: membersOf_def)
  with t m d1 ms show ?thesis
    by (simp add: groupMentionTrace_def)
qed

lemma generate_after_failure:
  assumes "reachable d" and "storedProfile d u = Some p" and "10 \<le> messageCount p"
    and "truthy (stylePrompt p)" and "completions_create sv (the (stylePrompt p)) body = (chunks, Failed)"
  shows "generateAIResponseStream sv d u body =
           Inr \<lparr>yielded = stream_contents chunks @ [APOLOGY], provider_calls = [(the (stylePrompt p), body)]\<rparr>"
  using assms
  by (simp add: generateAIResponseStream_def hasMinimumData_eq getStyleProfile_stored provider_stream_def)

lemma group_generate_after_failure:
  assumes "reachable d" and "storedGroupProfile d g = Some p" and "20 \<le> groupEligibleCount d g"
    and "truthy (gp_stylePrompt p)" and "completions_create sv (the (gp_stylePrompt p)) body = (chunks, Failed)"
  shows "generateGroupAIResponseStream sv d g body =
           Inr \<lparr>yielded = stream_contents chunks @ [APOLOGY], provider_calls = [(the (gp_stylePrompt p), body)]\<rparr>"
  using assms
  by (simp add: generateGroupAIResponseStream_def groupHasMinimumData_eq getGroupStyleProfile_stored
      provider_stream_def)

lemma companion_failure_is_stored:
  assumes u: "data_userId c = Some u" "u \<noteq> []"
    and s1: "sendMessage (db w) u AI_FRIEND_USER_ID body False = Inr (um, d1)"
    and p: "storedProfile (generationDb sv early d1 u) u = Some p" "10 \<le> messageCount p"
           "truthy (stylePrompt p)"
    and f: "completions_create sv (the (stylePrompt p)) body = (chunks, Failed)"
  shows "\<exists>ai. messages (db (handleAIFriendMessage sv early w c body)) = messages (db w) @ [um, ai]
            \<and> isAIGenerated ai \<and> content ai = concat (stream_contents chunks) @ APOLOGY
            \<and> map (chunk_text \<circ> payload_of)
                 (emitted ''ai-friend:stream-chunk'' (new_emissions w (handleAIFriendMessage sv early w c body)))
                = stream_contents chunks @ [APOLOGY]
            \<and> emitted ''ai-friend:stream-end'' (new_emissions w (handleAIFriendMessage sv early w c body))
                = [Emit (Client (client_id c)) ''ai-friend:stream-end'' (StreamEndP ai)]"
proof -
  let ?d = "generationDb sv early d1 u"
  let ?full = "concat (stream_contents chunks) @ APOLOGY"
  let ?ai = "\<lparr>msg_id = next_id ?d, fromUserId = AI_FRIEND_USER_ID, toUserId = u, content = ?full,
              timestamp = db_now ?d, isRead = False, isAIGenerated = True\<rparr>"
  from sendMessage_Inr_pre[OF s1] generationDb_frame[of sv early d1 u]
  have ok: "reachable ?d" "AI_FRIEND_USER_ID \<in> set (users ?d)" "u \<in> set (users ?d)"
    by simp_all
  have gen: "generateAIResponseStream sv ?d u body =
      Inr \<lparr>yielded = stream_contents chunks @ [APOLOGY], provider_calls = [(the (stylePrompt p), body)]\<rparr>"
    by (rule generate_after_failure[OF ok(1) p f])
  have s2: "sendMessage ?d AI_FRIEND_USER_ID u ?full True =
      Inr (?ai, ?d\<lparr>messages := messages ?d @ [?ai], next_id := Suc (next_id ?d)\<rparr>)"
    by (rule sendMessage_succeeds[OF ok(1) ok(2) ok(3)])
  have tr: "new_emissions w (handleAIFriendMessage sv early w c body) =
       [Emit (Client (client_id c)) ''ai-friend:user-message-sent'' (MessageP um),
        Emit (Client (client_id c)) ''ai-friend:stream-start'' (StreamStartP (msg_id um))]
       @ friendChunkEmissions (client_id c) [] (stream_contents chunks @ [APOLOGY])
       @ [Emit (Client (client_id c)) ''ai-friend:stream-end'' (StreamEndP ?ai)]"
    using u s1 gen s2
    by (simp add: handleAIFriendMessage_trace friendMessageTrace_def friendStreamTrace_def)
  have dbf: "db (handleAIFriendMessage sv early w c body) =
       ?d\<lparr>messages := messages ?d @ [?ai], next_id := Suc (next_id ?d)\<rparr>"
    using u s1 gen s2 handleAIFriendMessage_db[of c w body um d1 sv early]
    by (simp add: aiFriendStream_db)
  have msgs: "messages ?d = messages (db w) @ [um]"
    using sendMessage_Inr[OF s1] generationDb_frame[of sv early d1 u] by simp
  show ?thesis
    apply (rule exI[of _ ?ai])
    apply (simp only: tr dbf)
    apply (simp add: msgs emitted_friendChunks map_text_friendChunks)
    done
qed

lemma group_failure_is_stored:
  assumes u: "data_userId c = Some u" "u \<noteq> []"
    and mem: "isUserInGroup (db w) g u = Inr True"
    and r: "refreshGroupProfile sv (db w) g = Inr d1"
    and ex: "g \<in> set (groups (db w))" "getGroupAIUserId g \<in> set (users (db w))"
    and p: "storedGroupProfile d1 g = Some p" "20 \<le> groupEligibleCount d1 g" "truthy (gp_stylePrompt p)"
    and f: "completions_create sv (the (gp_stylePrompt p)) body = (chunks, Failed)"
  shows "\<exists>ai. groupMessages (db (handleGroupAIMention sv w c g body)) = groupMessages (db w) @ [ai]
            \<and> g_isAIGenerated ai \<and> g_content ai = concat (stream_contents chunks) @ APOLOGY
            \<and> emitted ''group:ai:stream-chunk'' (new_emissions w (handleGroupAIMention sv w c g body))
                = groupChunkEmissions (onlineSockets (redis w) (membersOf (db w) g)) g []
                    (stream_contents chunks @ [APOLOGY])
            \<and> emitted ''group:ai:stream-end'' (new_emissions w (handleGroupAIMention sv w c g body))
                = toRooms (onlineSockets (redis w) (membersOf (db w) g)) ''group:ai:stream-end''
                    (GroupStreamEndP g ai)"
proof -
  let ?full = "concat (stream_contents chunks) @ APOLOGY"
  let ?ai = "\<lparr>g_id = next_id d1, g_groupId = g, g_fromUserId = getGroupAIUserId g, g_content = ?full,
              g_timestamp = db_now d1, g_isAIGenerated = True, g_mentionedUserIds = extractMentions ?full\<rparr>"
  let ?socks = "onlineSockets (redis w) (membersOf (db w) g)"
  have rw: "reachable (db w)" by (rule isUserInGroup_Inr[OF mem])
  from refreshGroupProfile_Inr[OF r] rw ex
  have ok: "reachable d1" "g \<in> set (groups d1)" "getGroupAIUserId g \<in> set (users d1)"
    and same: "groupMembers d1 = groupMembers (db w)" "groupMessages d1 = groupMessages (db w)"
    by simp_all
  have ms: "getGroupMembers d1 g = Inr (membersOf (db w) g)"
    using getGroupMembers_eq[OF ok(1) ok(2)] same by (simp add: membersOf_def)
  have gen: "generateGroupAIResponseStream sv d1 g body =
      Inr \<lparr>yielded = stream_contents chunks @ [APOLOGY], provider_calls = [(the (gp_stylePrompt p), body)]\<rparr>"
    by (rule group_generate_after_failure[OF ok(1) p f])
  have s2: "sendGroupAIMessage d1 g ?full =
      Inr (?ai, d1\<lparr>groupMessages := groupMessages d1 @ [?ai], next_id := Suc (next_id d1)\<rparr>)"
    unfolding sendGroupAIMessage_def by (rule sendGroupMessage_succeeds[OF ok])
  have tr: "new_emissions w (handleGroupAIMention sv w c g body) =
       toRooms ?socks ''group:ai:stream-start'' (GroupStreamStartP g (db_now d1))
       @ groupChunkEmissions ?socks g [] (stream_contents chunks @ [APOLOGY])
       @ toRooms ?socks ''group:ai:stream-end'' (GroupStreamEndP g ?ai)"
    using u mem r ms gen s2
    by (simp add: handleGroupAIMention_outbox groupMentionTrace_def groupStreamTrace_def)
  have dbf: "db (handleGroupAIMention sv w c g body) =
       d1\<lparr>groupMessages := groupMessages d1 @ [?ai], next_id := Suc (next_id d1)\<rparr>"
    using u mem r ms gen s2
    by (simp add: handleGroupAIMention_def groupAIStream_db)
  show ?thesis
    apply (rule exI[of _ ?ai])
    apply (simp only: tr dbf)
    apply (simp add: same emitted_toRooms emitted_groupChunks)
    done
qed

section \<open>The claims\<close>

text \<open>
  \<^bold>\<open>C1\<close> (as amended). When the provider fails mid-stream after zero or more chunks, the
  generator yields the chunks received so far followed by exactly one apology chunk and
  ends normally. The handler forwards every one of them, then stores one generated
  message whose content is the forwarded body with the apology appended, and emits
  stream-end carrying it. This holds for the companion agent and for the group agent.
\<close>

theorem C1_provider_failure_persists_apology:
  "(data_userId c = Some u \<and> u \<noteq> []
      \<and> sendMessage (db w) u AI_FRIEND_USER_ID body False = Inr (um, d1)
      \<and> storedProfile (generationDb sv early d1 u) u = Some p \<and> 10 \<le> messageCount p
      \<and> truthy (stylePrompt p)
      \<and> completions_create sv (the (stylePrompt p)) body = (chunks, Failed)
    \<longrightarrow> (\<exists>ai. messages (db (handleAIFriendMessage sv early w c body)) = messages (db w) @ [um, ai]
            \<and> isAIGenerated ai \<and> content ai = concat (stream_contents chunks) @ APOLOGY
            \<and> map (chunk_text \<circ> payload_of)
                 (emitted ''ai-friend:stream-chunk'' (new_emissions w (handleAIFriendMessage sv early w c body)))
                = stream_contents chunks @ [APOLOGY]
            \<and> emitted ''ai-friend:stream-end'' (new_emissions w (handleAIFriendMessage sv early w c body))
                = [Emit (Client (client_id c)) ''ai-friend:stream-end'' (StreamEndP ai)]))
   \<and> (data_userId c = Some u \<and> u \<noteq> []
      \<and> isUserInGroup (db w) g u = Inr True
      \<and> refreshGroupProfile sv (db w) g = Inr d2
      \<and> g \<in> set (groups (db w)) \<and> getGroupAIUserId g \<in> set (users (db w))
      \<and> storedGroupProfile d2 g = Some gp \<and> 20 \<le> groupEligibleCount d2 g
      \<and> truthy (gp_stylePrompt gp)
      \<and> completions_create sv (the (gp_stylePrompt gp)) body = (chunks, Failed)
    \<longrightarrow> (\<exists>ai. groupMessages (db (handleGroupAIMention sv w c g body)) = groupMessages (db w) @ [ai]
            \<and> g_isAIGenerated ai \<and> g_content ai = concat (stream_contents chunks) @ APOLOGY
            \<and> emitted ''group:ai:stream-chunk'' (new_emissions w (handleGroupAIMention sv w c g body))
                = groupChunkEmissions (onlineSockets (redis w) (membersOf (db w) g)) g []
                    (stream_contents chunks @ [APOLOGY])
            \<and> emitted ''group:ai:stream-end'' (new_emissions w (handleGroupAIMention sv w c g body))
                = toRooms (onlineSockets (redis w) (membersOf (db w) g)) ''group:ai:stream-end''
                    (GroupStreamEndP g ai)))"
proof (intro conjI impI)
  assume "data_userId c = Some u \<and> u \<noteq> []
      \<and> sendMessage (db w) u AI_FRIEND_USER_ID body False = Inr (um, d1)
      \<and> storedProfile (generationDb sv early d1 u) u = Some p \<and> 10 \<le> messageCount p
      \<and> truthy (stylePrompt p)
      \<and> completions_create sv (the (stylePrompt p)) body = (chunks, Failed)"
  then show "\<exists>ai. messages (db (handleAIFriendMessage sv early w c body)) = messages (db w) @ [um, ai]
            \<and> isAIGenerated ai \<and> content ai = concat (stream_contents chunks) @ APOLOGY
            \<and> map (chunk_text \<circ> payload_of)
                 (emitted ''ai-friend:stream-chunk'' (new_emissions w (handleAIFriendMessage sv early w c body)))
                = stream_contents chunks @ [APOLOGY]
            \<and> emitted ''ai-friend:stream-end'' (new_emissions w (handleAIFriendMessage sv early w c body))
                = [Emit (Client (client_id c)) ''ai-friend:stream-end'' (StreamEndP ai)]"
    using companion_failure_is_stored by blast
next
  assume "data_userId c = Some u \<and> u \<noteq> []
      \<and> isUserInGroup (db w) g u = Inr True
      \<and> refreshGroupProfile sv (db w) g = Inr d2
      \<and> g \<in> set (groups (db w)) \<and> getGroupAIUserId g \<in> set (users (db w))
      \<and> storedGroupProfile d2 g = Some gp \<and> 20 \<le> groupEligibleCount d2 g
      \<and> truthy (gp_stylePrompt gp)
      \<and> completions_create sv (the (gp_stylePrompt gp)) body = (chunks, Failed)"
  then show "\<exists>ai. groupMessages (db (handleGroupAIMention sv w c g body)) = groupMessages (db w) @ [ai]
            \<and> g_isAIGenerated ai \<and> g_content ai = concat (stream_contents chunks) @ APOLOGY
            \<and> emitted ''group:ai:stream-chunk'' (new_emissions w (handleGroupAIMention sv w c g body))
                = groupChunkEmissions (onlineSockets (redis w) (membersOf (db w) g)) g []
                    (stream_contents chunks @ [APOLOGY])
            \<and> emitted ''group:ai:stream-end'' (new_emissions w (handleGroupAIMention sv w c g body))
                = toRooms (onlineSockets (redis w) (membersOf (db w) g)) ''group:ai:stream-end''
                    (GroupStreamEndP g ai)"
    using group_failure_is_stored by blast
qed

text \<open>
  As stated the property fails: with Alice's profile learned from 12 messages and a provider
  that fails after two chunks, the handler forwards three chunks and stores a generated
  message.
\<close>

theorem C1_provider_failure_persists_apology_counterexample:
  "completions_create (sampleServices Failed) ''Be brief.'' ''hi'' = ([Some ''Hel'', None, Some ''lo''], Failed)
   \<and> \<not> generated_stored (db (sampleWorld learnedDb))
   \<and> filter isAIGenerated
        (messages (db (handleAIFriendMessage (sampleServices Failed) False (sampleWorld learnedDb)
                         aliceClient ''hi'')))
       = [\<lparr>msg_id = 201, fromUserId = ''kirhost'', toUserId = ''alice'', content = ''Hello'' @ APOLOGY,
           timestamp = 1000, isRead = False, isAIGenerated = True\<rparr>]
   \<and> map chunk_text
        (received ''sA'' ''ai-friend:stream-chunk''
          (new_emissions (sampleWorld learnedDb)
             (handleAIFriendMessage (sampleServices Failed) False (sampleWorld learnedDb) aliceClient ''hi'')))
       = [''Hel'', ''lo'', APOLOGY]"
  by (simp add: sample_defs model_defs view_defs Let_def)

theorem C1_provider_failure_persists_apology_witness:
  "completions_create (sampleServices Failed) ''Be brief.'' ''hi'' = ([Some ''Hel'', None, Some ''lo''], Failed)
   \<and> (\<exists>ai. messages (db (handleAIFriendMessage (sampleServices Failed) True (sampleWorld learnedDb)
                             aliceClient ''hi''))
              = messages learnedDb @ [askMessage, ai]
            \<and> isAIGenerated ai \<and> content ai = ''Hello'' @ APOLOGY)
   \<and> (\<exists>ai. groupMessages (db (handleGroupAIMention (sampleServices Failed) (sampleWorld groupDb)
                                  aliceClient ''g1'' ''hi''))
              = groupMessages groupDb @ [ai]
            \<and> g_isAIGenerated ai \<and> g_content ai = ''Hello'' @ APOLOGY)"
proof -
  let ?sv = "sampleServices Failed"
  let ?d1 = "learnedDb\<lparr>messages := messages learnedDb @ [askMessage], next_id := 201\<rparr>"
  let ?p = "userProfileOf ''alice'' 12 (Some ''Be brief.'')"
  let ?gp = "groupProfileOf ''g1'' 20 (Some ''Be loud.'')"
  have f: "completions_create ?sv ''Be brief.'' ''hi'' = ([Some ''Hel'', None, Some ''lo''], Failed)"
          "completions_create ?sv ''Be loud.'' ''hi'' = ([Some ''Hel'', None, Some ''lo''], Failed)"
    by (simp_all add: sampleServices_def)
  have c: "data_userId aliceClient = Some ''alice'' \<and> ''alice'' \<noteq> []"
    by (simp add: aliceClient_def)
  have s: "sendMessage (db (sampleWorld learnedDb)) ''alice'' AI_FRIEND_USER_ID ''hi'' False = Inr (askMessage, ?d1)"
    by (simp add: sample_defs model_defs askMessage_def Let_def)
  have p: "storedProfile (generationDb ?sv True ?d1 ''alice'') ''alice'' = Some ?p \<and> 10 \<le> messageCount ?p
           \<and> truthy (stylePrompt ?p) \<and> the (stylePrompt ?p) = ''Be brief.''"
    by (simp add: sample_defs model_defs view_defs askMessage_def Let_def)
  have g: "isUserInGroup (db (sampleWorld groupDb)) ''g1'' ''alice'' = Inr True
           \<and> refreshGroupProfile ?sv (db (sampleWorld groupDb)) ''g1'' = Inr groupDb
           \<and> ''g1'' \<in> set (groups (db (sampleWorld groupDb)))
           \<and> getGroupAIUserId ''g1'' \<in> set (users (db (sampleWorld groupDb)))
           \<and> storedGroupProfile groupDb ''g1'' = Some ?gp \<and> 20 \<le> groupEligibleCount groupDb ''g1''
           \<and> truthy (gp_stylePrompt ?gp) \<and> the (gp_stylePrompt ?gp) = ''Be loud.''"
    by (simp add: sample_defs model_defs view_defs Let_def)
  have sc: "concat (stream_contents [Some ''Hel'', None, Some ''lo'']) = ''Hello''"
    by simp
  have m: "messages (db (sampleWorld learnedDb)) = messages learnedDb"
          "groupMessages (db (sampleWorld groupDb)) = groupMessages groupDb"
    by (simp_all add: sampleWorld_def)
  have h1: "data_userId aliceClient = Some ''alice'' \<and> ''alice'' \<noteq> []
      \<and> sendMessage (db (sampleWorld learnedDb)) ''alice'' AI_FRIEND_USER_ID ''hi'' False = Inr (askMessage, ?d1)
      \<and> storedProfile (generationDb ?sv True ?d1 ''alice'') ''alice'' = Some ?p \<and> 10 \<le> messageCount ?p
      \<and> truthy (stylePrompt ?p)
      \<and> completions_create ?sv (the (stylePrompt ?p)) ''hi'' = ([Some ''Hel'', None, Some ''lo''], Failed)"
    using c s p f(1) by simp
  have h2: "data_userId aliceClient = Some ''alice'' \<and> ''alice'' \<noteq> []
      \<and> isUserInGroup (db (sampleWorld groupDb)) ''g1'' ''alice'' = Inr True
      \<and> refreshGroupProfile ?sv (db (sampleWorld groupDb)) ''g1'' = Inr groupDb
      \<and> ''g1'' \<in> set (groups (db (sampleWorld groupDb)))
      \<and> getGroupAIUserId ''g1'' \<in> set (users (db (sampleWorld groupDb)))
      \<and> storedGroupProfile groupDb ''g1'' = Some ?gp \<and> 20 \<le> groupEligibleCount groupDb ''g1''
      \<and> truthy (gp_stylePrompt ?gp)
      \<and> completions_create ?sv (the (gp_stylePrompt ?gp)) ''hi'' = ([Some ''Hel'', None, Some ''lo''], Failed)"
    using c g f(2) by simp
  from mp[OF C1_provider_failure_persists_apology[THEN conjunct1] h1]
  obtain ai where "messages (db (handleAIFriendMessage ?sv True (sampleWorld learnedDb) aliceClient ''hi''))
              = messages (db (sampleWorld learnedDb)) @ [askMessage, ai]"
      "isAIGenerated ai" "content ai = concat (stream_contents [Some ''Hel'', None, Some ''lo'']) @ APOLOGY"
    by blast
  then have one: "\<exists>ai. messages (db (handleAIFriendMessage ?sv True (sampleWorld learnedDb) aliceClient ''hi''))
              = messages learnedDb @ [askMessage, ai]
            \<and> isAIGenerated ai \<and> content ai = ''Hello'' @ APOLOGY"
    using m(1) by (intro exI[of _ ai]) simp
  from mp[OF C1_provider_failure_persists_apology[THEN conjunct2] h2]
  obtain gai where "groupMessages (db (handleGroupAIMention ?sv (sampleWorld groupDb) aliceClient ''g1'' ''hi''))
              = groupMessages (db (sampleWorld groupDb)) @ [gai]"
      "g_isAIGenerated gai" "g_content gai = concat (stream_contents [Some ''Hel'', None, Some ''lo'']) @ APOLOGY"
    by blast
  then have two: "\<exists>ai. groupMessages (db (handleGroupAIMention ?sv (sampleWorld groupDb) aliceClient ''g1'' ''hi''))
              = groupMessages groupDb @ [ai]
            \<and> g_isAIGenerated ai \<and> g_content ai = ''Hello'' @ APOLOGY"
    using m(2) by (intro exI[of _ gai]) simp
  from f(1) one two show ?thesis by blast
qed

text \<open>
  \<^bold>\<open>C2\<close> (as amended). For a user with a stored profile, \<^verbatim>\<open>shouldUpdateProfile\<close> returns
  true iff the current eligible count minus the recorded count is at least 10; for a user
  with no stored profile it returns true whatever the count; for a group with no stored
  profile it returns true iff the current eligible count is at least 20.
\<close>

theorem C2_recompute_eligibility:
  assumes "reachable d"
  shows "(\<forall>p. storedProfile d u = Some p \<longrightarrow>
            shouldUpdateProfile d u = Inr (shouldRecompute_spec (eligibleCount d u) (messageCount p) 10))
       \<and> (storedProfile d u = None \<longrightarrow> shouldUpdateProfile d u = Inr True)
       \<and> (storedGroupProfile d g = None \<longrightarrow>
            shouldUpdateGroupProfile d g = Inr (shouldRecompute_spec (groupEligibleCount d g) 0 20))"
  using assms
  by (simp add: shouldUpdateProfile_eq shouldUpdateGroupProfile_eq shouldRecompute_spec_def)

text \<open>
  As stated the property fails: a user with 9 eligible messages and no profile is eligible,
  and a group with a profile recorded at 20 messages is not eligible at 40.
\<close>

theorem C2_recompute_eligibility_counterexample:
  "shouldUpdateProfile (sampleDb\<lparr>messages := directFrom ''alice'' ''bob'' 9\<rparr>) ''alice'' = Inr True
   \<and> \<not> shouldRecompute_spec
          (eligibleCount (sampleDb\<lparr>messages := directFrom ''alice'' ''bob'' 9\<rparr>) ''alice'')
          (recordedCount (sampleDb\<lparr>messages := directFrom ''alice'' ''bob'' 9\<rparr>) ''alice'') 10
   \<and> shouldUpdateGroupProfile
        (sampleDb\<lparr>groupMessages := postedIn ''g1'' ''alice'' 40,
                  groupStyleProfiles := [groupProfileOf ''g1'' 20 (Some ''Be loud.'')]\<rparr>) ''g1'' = Inr False
   \<and> shouldRecompute_spec
        (groupEligibleCount
           (sampleDb\<lparr>groupMessages := postedIn ''g1'' ''alice'' 40,
                     groupStyleProfiles := [groupProfileOf ''g1'' 20 (Some ''Be loud.'')]\<rparr>) ''g1'')
        (groupRecordedCount
           (sampleDb\<lparr>groupMessages := postedIn ''g1'' ''alice'' 40,
                     groupStyleProfiles := [groupProfileOf ''g1'' 20 (Some ''Be loud.'')]\<rparr>) ''g1'') 20"
  by (simp add: sample_defs model_defs view_defs Let_def)

theorem C2_recompute_eligibility_witness:
  "reachable sampleDb
   \<and> shouldUpdateProfile
        (sampleDb\<lparr>messages := directFrom ''alice'' ''bob'' 9,
                  styleProfiles := [userProfileOf ''alice'' 0 (Some [])]\<rparr>) ''alice'' = Inr False
   \<and> shouldUpdateProfile
        (sampleDb\<lparr>messages := directFrom ''alice'' ''bob'' 10,
                  styleProfiles := [userProfileOf ''alice'' 0 (Some [])]\<rparr>) ''alice'' = Inr True
   \<and> shouldUpdateProfile sampleDb ''alice'' = Inr True
   \<and> shouldUpdateGroupProfile (sampleDb\<lparr>groupMessages := postedIn ''g1'' ''alice'' 19\<rparr>) ''g1'' = Inr False
   \<and> shouldUpdateGroupProfile (sampleDb\<lparr>groupMessages := postedIn ''g1'' ''alice'' 20\<rparr>) ''g1'' = Inr True"
  using C2_recompute_eligibility
          [of "sampleDb\<lparr>messages := directFrom ''alice'' ''bob'' 9,
                        styleProfiles := [userProfileOf ''alice'' 0 (Some [])]\<rparr>" "''alice''" "''g1''"]
        C2_recompute_eligibility
          [of "sampleDb\<lparr>messages := directFrom ''alice'' ''bob'' 10,
                        styleProfiles := [userProfileOf ''alice'' 0 (Some [])]\<rparr>" "''alice''" "''g1''"]
        C2_recompute_eligibility [of sampleDb "''alice''" "''g1''"]
        C2_recompute_eligibility [of "sampleDb\<lparr>groupMessages := postedIn ''g1'' ''alice'' 19\<rparr>" "''alice''" "''g1''"]
        C2_recompute_eligibility [of "sampleDb\<lparr>groupMessages := postedIn ''g1'' ''alice'' 20\<rparr>" "''alice''" "''g1''"]
  by (simp add: sample_defs view_defs userDirectMessages_def userGroupMessages_def eligibleGroupMessages_def)

text \<open>
  \<^bold>\<open>C3\<close>. With the store configured and every registered handle non-empty, after any
  sequence of register and deregister events a user is online iff the most recent event
  of that user is a register (when the user has no event, the answer is the one before
  the sequence). A deregister removes the user's entry whatever handle it names.
\<close>

theorem C3_presence_follows_most_recent_event:
  assumes "handles_nonempty es"
  shows "isUserOnline (apply_events (Some kv) es) u \<longleftrightarrow>
           (is_register (most_recent u es) \<or> (most_recent u es = None \<and> isUserOnline (Some kv) u))"
proof (cases "most_recent u es")
  case None
  then show ?thesis by (simp add: online_after_events)
next
  case (Some e)
  then show ?thesis
    using most_recent_nonempty[OF assms, of u]
    by (cases e) (auto simp: online_after_events)
qed

theorem C3_presence_follows_most_recent_event_witness:
  "handles_nonempty [Register ''alice'' ''s1'', Register ''alice'' ''s2'', Deregister ''alice'', Register ''bob'' ''s3'']
   \<and> \<not> isUserOnline (apply_events (Some Map.empty)
          [Register ''alice'' ''s1'', Register ''alice'' ''s2'', Deregister ''alice'', Register ''bob'' ''s3'']) ''alice''
   \<and> isUserOnline (apply_events (Some Map.empty)
          [Register ''alice'' ''s1'', Register ''alice'' ''s2'', Deregister ''alice'', Register ''bob'' ''s3'']) ''bob''"
  using C3_presence_follows_most_recent_event
          [of "[Register ''alice'' ''s1'', Register ''alice'' ''s2'', Deregister ''alice'', Register ''bob'' ''s3'']"
              Map.empty "''alice''"]
        C3_presence_follows_most_recent_event
          [of "[Register ''alice'' ''s1'', Register ''alice'' ''s2'', Deregister ''alice'', Register ''bob'' ''s3'']"
              Map.empty "''bob''"]
  by (simp add: isUserOnline_def)

text \<open>
  \<^bold>\<open>C4\<close>. Whenever a handler emits stream-end carrying a message, the chunk payloads it
  emitted before, concatenated in order, are the content of that message: for the
  companion agent over all its stream-chunk emissions; for the group agent over the
  stream-chunk emissions that reach a connection, when no two listed members share a
  handle.
\<close>

theorem C4_chunks_concatenate_to_content:
  "(Emit t ''ai-friend:stream-end'' (StreamEndP m) \<in> set (new_emissions w (handleAIFriendMessage sv early w c body))
      \<longrightarrow> concat (map (chunk_text \<circ> payload_of)
                    (emitted ''ai-friend:stream-chunk'' (new_emissions w (handleAIFriendMessage sv early w c body))))
           = content m)
   \<and> (Emit (Room s) ''group:ai:stream-end'' (GroupStreamEndP g' gm)
         \<in> set (new_emissions w (handleGroupAIMention sv w c g body))
       \<and> distinct (onlineSockets (redis w) (membersOf (db w) g))
      \<longrightarrow> concat (map chunk_text
                    (received s ''group:ai:stream-chunk'' (new_emissions w (handleGroupAIMention sv w c g body))))
           = g_content gm)"
proof (intro conjI impI)
  let ?new = "new_emissions w (handleAIFriendMessage sv early w c body)"
  assume a: "Emit t ''ai-friend:stream-end'' (StreamEndP m) \<in> set ?new"
  have new: "?new = friendMessageTrace sv early w c body"
    by (simp add: handleAIFriendMessage_trace)
  from friendMessageTrace_completed[OF a[unfolded new]] friendStreamTrace_end
  show "concat (map (chunk_text \<circ> payload_of) (emitted ''ai-friend:stream-chunk'' ?new)) = content m"
    unfolding new by fastforce
next
  let ?new = "new_emissions w (handleGroupAIMention sv w c g body)"
  assume a: "Emit (Room s) ''group:ai:stream-end'' (GroupStreamEndP g' gm) \<in> set ?new
       \<and> distinct (onlineSockets (redis w) (membersOf (db w) g))"
  have new: "?new = groupMentionTrace sv w c g body"
    by (simp add: handleGroupAIMention_outbox)
  from a new obtain d1 where
    tr: "groupMentionTrace sv w c g body = groupStreamTrace sv (redis w) d1 c g body (membersOf (db w) g)"
    using groupMentionTrace_completed by metis
  show "concat (map chunk_text (received s ''group:ai:stream-chunk'' ?new)) = g_content gm"
    using a groupStreamTrace_end[of s g' gm sv "redis w" d1 c g _ "membersOf (db w) g"]
    unfolding new tr by simp
qed

theorem C4_chunks_concatenate_to_content_witness:
  "Emit (Client ''sA'') ''ai-friend:stream-end'' (StreamEndP replyMessage)
     \<in> set (new_emissions (sampleWorld learnedDb)
               (handleAIFriendMessage (sampleServices Completed) False (sampleWorld learnedDb) aliceClient ''hi''))
   \<and> concat (map (chunk_text \<circ> payload_of)
        (emitted ''ai-friend:stream-chunk''
           (new_emissions (sampleWorld learnedDb)
              (handleAIFriendMessage (sampleServices Completed) False (sampleWorld learnedDb) aliceClient ''hi''))))
      = ''Hello''
   \<and> Emit (Room ''sB'') ''group:ai:stream-end'' (GroupStreamEndP ''g1'' groupReplyMessage)
     \<in> set (new_emissions (sampleWorld groupDb)
               (handleGroupAIMention (sampleServices Completed) (sampleWorld groupDb) aliceClient ''g1'' ''hi''))
   \<and> concat (map chunk_text
        (received ''sB'' ''group:ai:stream-chunk''
           (new_emissions (sampleWorld groupDb)
              (handleGroupAIMention (sampleServices Completed) (sampleWorld groupDb) aliceClient ''g1'' ''hi''))))
      = ''Hello''"
proof -
  have a: "Emit (Client ''sA'') ''ai-friend:stream-end'' (StreamEndP replyMessage)
     \<in> set (new_emissions (sampleWorld learnedDb)
               (handleAIFriendMessage (sampleServices Completed) False (sampleWorld learnedDb) aliceClient ''hi''))"
    by (simp add: sample_defs model_defs view_defs replyMessage_def Let_def)
  have b: "Emit (Room ''sB'') ''group:ai:stream-end'' (GroupStreamEndP ''g1'' groupReplyMessage)
     \<in> set (new_emissions (sampleWorld groupDb)
               (handleGroupAIMention (sampleServices Completed) (sampleWorld groupDb) aliceClient ''g1'' ''hi''))"
    by (simp add: sample_defs model_defs view_defs groupReplyMessage_def Let_def)
  have d: "distinct (onlineSockets (redis (sampleWorld groupDb)) (membersOf (db (sampleWorld groupDb)) ''g1''))"
    by (simp add: sample_defs model_defs view_defs)
  from C4_chunks_concatenate_to_content
         [where t = "Client ''sA''" and m = replyMessage and w = "sampleWorld learnedDb"
            and sv = "sampleServices Completed" and early = False and c = aliceClient and body = "''hi''"]
       a
  have c1: "concat (map (chunk_text \<circ> payload_of)
        (emitted ''ai-friend:stream-chunk''
           (new_emissions (sampleWorld learnedDb)
              (handleAIFriendMessage (sampleServices Completed) False (sampleWorld learnedDb) aliceClient ''hi''))))
      = ''Hello''"
    by (simp add: replyMessage_def)
  from C4_chunks_concatenate_to_content
         [where s = "''sB''" and g' = "''g1''" and gm = groupReplyMessage and w = "sampleWorld groupDb"
            and sv = "sampleServices Completed" and c = aliceClient and g = "''g1''" and body = "''hi''"]
       b d
  have c2: "concat (map chunk_text
        (received ''sB'' ''group:ai:stream-chunk''
           (new_emissions (sampleWorld groupDb)
              (handleGroupAIMention (sampleServices Completed) (sampleWorld groupDb) aliceClient ''g1'' ''hi''))))
      = ''Hello''"
    by (simp add: groupReplyMessage_def)
  from a b c1 c2 show ?thesis by blast
qed

text \<open>
  \<^bold>\<open>C5\<close>. When a member's group message is stored, the connections to which
  \<^verbatim>\<open>group:message:receive\<close> is emitted are exactly the handles of the members of the
  group that are online, the sender excluded.
\<close>

theorem C5_group_fanout_targets:
  assumes "data_userId c = Some sender" and "sender \<noteq> []"
    and "isUserInGroup (db w) g sender = Inr True"
    and "sendGroupMessage (db w) g sender body False = Inr (m, d1)"
  shows "rooms (emitted ''group:message:receive'' (new_emissions w (handleGroupMessageSend w c g body)))
         = socketOf (redis w) `
             {u \<in> member_userId ` set (membersOf (db w) g). isUserOnline (redis w) u \<and> u \<noteq> sender}"
proof -
  have "handleGroupMessageSend w c g body = routeGroupMessage w c sender g body"
    using assms(1-3) by (simp add: handleGroupMessageSend_def)
  then have "new_emissions w (handleGroupMessageSend w c g body) =
           map (\<lambda>x. Emit (Room (socketOf (redis w) (member_userId x))) ''group:message:receive'' (GroupMessageP m))
                 (filter (\<lambda>x. member_userId x \<noteq> sender \<and> isUserOnline (redis w) (member_userId x))
                         (membersOf (db w) g))
           @ [Emit (Client (client_id c)) ''group:message:sent'' (GroupMessageP m)]"
    using routeGroupMessage_outbox[OF assms(4), of c] by simp
  then show ?thesis
    by (auto simp: emitted_def image_iff)
qed

theorem C5_group_fanout_targets_witness:
  "isUserInGroup (db (sampleWorld sampleDb)) ''g1'' ''alice'' = Inr True
   \<and> rooms (emitted ''group:message:receive''
        (new_emissions (sampleWorld sampleDb)
           (handleGroupMessageSend (sampleWorld sampleDb) aliceClient ''g1'' ''hello @bob'')))
      = {''sB''}"
proof -
  have c: "data_userId aliceClient = Some ''alice''" and n: "''alice'' \<noteq> []"
    by (simp_all add: aliceClient_def)
  have m: "isUserInGroup (db (sampleWorld sampleDb)) ''g1'' ''alice'' = Inr True"
    by (simp add: sample_defs model_defs)
  have s: "sendGroupMessage (db (sampleWorld sampleDb)) ''g1'' ''alice'' ''hello @bob'' False =
             Inr (helloGroupMessage, sampleDb\<lparr>groupMessages := [helloGroupMessage], next_id := 201\<rparr>)"
    by (simp add: sendGroupMessage_def sampleWorld_def sampleDb_def helloGroupMessage_def mentions_hello_bob Let_def)
  have ms: "member_userId ` set (membersOf (db (sampleWorld sampleDb)) ''g1'') = {''alice'', ''bob'', ''group-ai-g1''}"
    by (simp add: membersOf_def sampleWorld_def sampleDb_def)
  have on: "isUserOnline (redis (sampleWorld sampleDb)) ''bob''"
           "\<not> isUserOnline (redis (sampleWorld sampleDb)) ''group-ai-g1''"
           "socketOf (redis (sampleWorld sampleDb)) ''bob'' = ''sB''"
    by (simp_all add: sample_defs model_defs socketOf_def)
  have "{u \<in> member_userId ` set (membersOf (db (sampleWorld sampleDb)) ''g1'').
                isUserOnline (redis (sampleWorld sampleDb)) u \<and> u \<noteq> ''alice''} = {''bob''}"
    unfolding ms using on(1,2) by auto
  then have t: "socketOf (redis (sampleWorld sampleDb)) `
             {u \<in> member_userId ` set (membersOf (db (sampleWorld sampleDb)) ''g1'').
                isUserOnline (redis (sampleWorld sampleDb)) u \<and> u \<noteq> ''alice''} = {''sB''}"
    using on(3) by simp
  from C5_group_fanout_targets[OF c n m s] m t show ?thesis
    by simp
qed

text \<open>
  \<^bold>\<open>C6\<close>. When a direct message is stored and its recipient is online, the handler emits
  exactly two events: \<^verbatim>\<open>message:receive\<close> carrying the message to the recipient's
  connection, then \<^verbatim>\<open>message:sent\<close> carrying it to the sender's connection.
\<close>

theorem C6_direct_message_delivery_order:
  assumes "data_userId c = Some sender" and "sender \<noteq> []"
    and "sendMessage (db w) sender recipient body False = Inr (m, d1)"
    and "isUserOnline (redis w) recipient"
  shows "new_emissions w (handleMessageSend w c recipient body) =
           [Emit (Room (the (getSocketByUser (redis w) recipient))) ''message:receive'' (MessageP m),
            Emit (Client (client_id c)) ''message:sent'' (MessageP m)]"
  using assms
  by (simp add: handleMessageSend_def emitToUser_def online_iff_socket Let_def)

theorem C6_direct_message_delivery_order_witness:
  "isUserOnline (redis (sampleWorld sampleDb)) ''bob''
   \<and> new_emissions (sampleWorld sampleDb) (handleMessageSend (sampleWorld sampleDb) aliceClient ''bob'' ''hello'')
       = [Emit (Room ''sB'') ''message:receive'' (MessageP helloMessage),
          Emit (Client ''sA'') ''message:sent'' (MessageP helloMessage)]"
proof -
  have c: "data_userId aliceClient = Some ''alice''" and n: "''alice'' \<noteq> []"
    by (simp_all add: aliceClient_def)
  have s: "sendMessage (db (sampleWorld sampleDb)) ''alice'' ''bob'' ''hello'' False =
             Inr (helloMessage, sampleDb\<lparr>messages := [helloMessage], next_id := 201\<rparr>)"
    by (simp add: sendMessage_def sampleWorld_def sampleDb_def helloMessage_def Let_def)
  have on: "isUserOnline (redis (sampleWorld sampleDb)) ''bob''"
    by (simp add: sample_defs model_defs)
  have so: "getSocketByUser (redis (sampleWorld sampleDb)) ''bob'' = Some ''sB''"
    by (simp add: sample_defs model_defs)
  from C6_direct_message_delivery_order[OF c n s on] on so show ?thesis
    by (simp add: aliceClient_def)
qed

text \<open>
  \<^bold>\<open>C7\<close>. If the insert rejects, the handler emits \<^verbatim>\<open>message:error\<close> to the sender and
  nothing else, and the database is unchanged. If the insert succeeds, the message is
  stored and \<^verbatim>\<open>message:sent\<close> is emitted to the sender last, after
  \<^verbatim>\<open>message:receive\<close> when the recipient is online and alone when it is not.
\<close>

theorem C7_persist_then_acknowledge:
  assumes "data_userId c = Some sender" and "sender \<noteq> []"
  shows "(\<forall>e. sendMessage (db w) sender recipient body False = Inl e \<longrightarrow>
            new_emissions w (handleMessageSend w c recipient body) =
              [Emit (Client (client_id c)) ''message:error'' (ErrorP ''Failed to send message'')]
            \<and> db (handleMessageSend w c recipient body) = db w)
       \<and> (\<forall>m d1. sendMessage (db w) sender recipient body False = Inr (m, d1) \<longrightarrow>
            db (handleMessageSend w c recipient body) = d1 \<and> m \<in> set (messages d1)
            \<and> new_emissions w (handleMessageSend w c recipient body) =
                (if isUserOnline (redis w) recipient
                 then [Emit (Room (the (getSocketByUser (redis w) recipient))) ''message:receive'' (MessageP m)]
                 else [])
                @ [Emit (Client (client_id c)) ''message:sent'' (MessageP m)])"
  using assms
  by (auto simp: handleMessageSend_def emitToUser_def online_iff_socket Let_def sendMessage_def split: if_splits)

theorem C7_persist_then_acknowledge_witness:
  "new_emissions (sampleWorld sampleDb) (handleMessageSend (sampleWorld sampleDb) aliceClient ''nobody'' ''hello'')
     = [Emit (Client ''sA'') ''message:error'' (ErrorP ''Failed to send message'')]
   \<and> db (handleMessageSend (sampleWorld sampleDb) aliceClient ''nobody'' ''hello'') = sampleDb
   \<and> new_emissions (sampleWorld sampleDb) (handleMessageSend (sampleWorld sampleDb) aliceClient ''kirhost'' ''hello'')
     = [Emit (Client ''sA'') ''message:sent'' (MessageP (helloMessage\<lparr>toUserId := ''kirhost''\<rparr>))]
   \<and> messages (db (handleMessageSend (sampleWorld sampleDb) aliceClient ''kirhost'' ''hello''))
     = [helloMessage\<lparr>toUserId := ''kirhost''\<rparr>]"
proof -
  have c: "data_userId aliceClient = Some ''alice''" and n: "''alice'' \<noteq> []"
    by (simp_all add: aliceClient_def)
  have f: "sendMessage (db (sampleWorld sampleDb)) ''alice'' ''nobody'' ''hello'' False = Inl DatabaseError"
    by (simp add: sendMessage_def sampleWorld_def sampleDb_def)
  have s: "sendMessage (db (sampleWorld sampleDb)) ''alice'' ''kirhost'' ''hello'' False =
             Inr (helloMessage\<lparr>toUserId := ''kirhost''\<rparr>,
                  sampleDb\<lparr>messages := [helloMessage\<lparr>toUserId := ''kirhost''\<rparr>], next_id := 201\<rparr>)"
    by (simp add: sendMessage_def sampleWorld_def sampleDb_def helloMessage_def Let_def)
  have off: "\<not> isUserOnline (redis (sampleWorld sampleDb)) ''kirhost''"
    by (simp add: sample_defs model_defs)
  from C7_persist_then_acknowledge[OF c n, of "sampleWorld sampleDb" "''nobody''" "''hello''"]
       C7_persist_then_acknowledge[OF c n, of "sampleWorld sampleDb" "''kirhost''" "''hello''"]
       f s off
  show ?thesis
    by (simp add: aliceClient_def sampleWorld_def)
qed

text \<open>
  \<^bold>\<open>C8\<close>. A companion request by a user with no stored profile or a recorded count below
  10 yields the one "still learning" chunk and makes no provider request, and
  \<^verbatim>\<open>hasMinimumData\<close> is false; with a recorded count of at least 10 and an empty or
  missing prompt it yields the one "still analyzing" chunk and makes no provider request.
  A user with fewer than 10 eligible messages is in the first case after any
  recomputation of the profile.
\<close>

theorem C8_canned_reply_without_provider:
  assumes "reachable d"
  shows "((case storedProfile d u of None \<Rightarrow> True | Some p \<Rightarrow> messageCount p < 10) \<longrightarrow>
            hasMinimumData d u = Inr False
            \<and> generateAIResponseStream sv d u body = Inr \<lparr>yielded = [STILL_LEARNING], provider_calls = []\<rparr>)
       \<and> ((case storedProfile d u of None \<Rightarrow> False
            | Some p \<Rightarrow> 10 \<le> messageCount p \<and> \<not> truthy (stylePrompt p)) \<longrightarrow>
            generateAIResponseStream sv d u body = Inr \<lparr>yielded = [STILL_ANALYZING], provider_calls = []\<rparr>)
       \<and> (eligibleCount d u < 10 \<longrightarrow>
            (\<forall>p d1. updateStyleProfile sv d u = Inr (p, d1) \<longrightarrow>
               hasMinimumData d1 u = Inr False
               \<and> generateAIResponseStream sv d1 u body = Inr \<lparr>yielded = [STILL_LEARNING], provider_calls = []\<rparr>))"
proof (intro conjI impI allI)
  assume "case storedProfile d u of None \<Rightarrow> True | Some p \<Rightarrow> messageCount p < 10"
  then show "hasMinimumData d u = Inr False"
    and "generateAIResponseStream sv d u body = Inr \<lparr>yielded = [STILL_LEARNING], provider_calls = []\<rparr>"
    using assms
    by (auto simp: generateAIResponseStream_def hasMinimumData_eq split: option.splits)
next
  assume "case storedProfile d u of None \<Rightarrow> False | Some p \<Rightarrow> 10 \<le> messageCount p \<and> \<not> truthy (stylePrompt p)"
  then show "generateAIResponseStream sv d u body = Inr \<lparr>yielded = [STILL_ANALYZING], provider_calls = []\<rparr>"
    using assms
    by (auto simp: generateAIResponseStream_def hasMinimumData_eq getStyleProfile_stored split: option.splits)
next
  fix p d1
  assume few: "eligibleCount d u < 10" and up: "updateStyleProfile sv d u = Inr (p, d1)"
  from updateStyleProfile_records[OF up] few
  show "hasMinimumData d1 u = Inr False"
    and "generateAIResponseStream sv d1 u body = Inr \<lparr>yielded = [STILL_LEARNING], provider_calls = []\<rparr>"
    by (auto simp: generateAIResponseStream_def hasMinimumData_eq)
qed

theorem C8_canned_reply_without_provider_witness:
  "eligibleCount (sampleDb\<lparr>messages := directFrom ''alice'' ''bob'' 5\<rparr>) ''alice'' = 5
   \<and> hasMinimumData (sampleDb\<lparr>messages := directFrom ''alice'' ''bob'' 5\<rparr>) ''alice'' = Inr False
   \<and> generateAIResponseStream (sampleServices Completed)
        (sampleDb\<lparr>messages := directFrom ''alice'' ''bob'' 5\<rparr>) ''alice'' ''hi''
       = Inr \<lparr>yielded = [STILL_LEARNING], provider_calls = []\<rparr>
   \<and> hasMinimumData
        (sampleDb\<lparr>messages := directFrom ''alice'' ''bob'' 5,
                  styleProfiles := [userProfileOf ''alice'' 5 (Some ''Be brief.'')\<lparr>lastUpdated := 1000\<rparr>]\<rparr>)
        ''alice'' = Inr False
   \<and> generateAIResponseStream (sampleServices Completed)
        (sampleDb\<lparr>styleProfiles := [userProfileOf ''alice'' 12 (Some [])]\<rparr>) ''alice'' ''hi''
       = Inr \<lparr>yielded = [STILL_ANALYZING], provider_calls = []\<rparr>"
proof -
  let ?d = "sampleDb\<lparr>messages := directFrom ''alice'' ''bob'' 5\<rparr>"
  let ?p = "userProfileOf ''alice'' 5 (Some ''Be brief.'')\<lparr>lastUpdated := 1000\<rparr>"
  let ?r = "sampleDb\<lparr>styleProfiles := [userProfileOf ''alice'' 12 (Some [])]\<rparr>"
  have r: "reachable ?d" "reachable ?r"
    by (simp_all add: sampleDb_def)
  have n: "eligibleCount ?d ''alice'' = 5"
    by (simp add: sample_defs view_defs userDirectMessages_def userGroupMessages_def)
  have s: "storedProfile ?d ''alice'' = None"
    by (simp add: sample_defs view_defs)
  have u: "updateStyleProfile (sampleServices Completed) ?d ''alice'' = Inr (?p, ?d\<lparr>styleProfiles := [?p]\<rparr>)"
    by (simp add: sample_defs model_defs Let_def)
  have e: "storedProfile ?r ''alice'' = Some (userProfileOf ''alice'' 12 (Some []))"
    by (simp add: sample_defs view_defs)
  from C8_canned_reply_without_provider[OF r(1), of "''alice''" "sampleServices Completed" "''hi''"] n s u
  have a: "hasMinimumData ?d ''alice'' = Inr False"
    "generateAIResponseStream (sampleServices Completed) ?d ''alice'' ''hi''
       = Inr \<lparr>yielded = [STILL_LEARNING], provider_calls = []\<rparr>"
    "hasMinimumData (?d\<lparr>styleProfiles := [?p]\<rparr>) ''alice'' = Inr False"
    by simp_all
  from C8_canned_reply_without_provider[OF r(2), of "''alice''" "sampleServices Completed" "''hi''"] e
  have b: "generateAIResponseStream (sampleServices Completed) ?r ''alice'' ''hi''
       = Inr \<lparr>yielded = [STILL_ANALYZING], provider_calls = []\<rparr>"
    by (simp add: userProfileOf_def)
  from n a b show ?thesis by simp
qed

text \<open>
  \<^bold>\<open>C9\<close>. For a group with a stored profile, \<^verbatim>\<open>getGroupStyleProfile\<close> returns that
  profile with \<^verbatim>\<open>messageCount\<close> replaced by the current number of stored messages of
  the group that are not generated, whatever count is stored; the minimum-data check
  compares this current count with 20.
\<close>

theorem C9_group_profile_live_count:
  assumes "reachable d" and "storedGroupProfile d g = Some p"
  shows "getGroupStyleProfile d g =
           Inr (Some (p\<lparr>gp_messageCount :=
                          int (length (filter (\<lambda>m. g_groupId m = g \<and> \<not> g_isAIGenerated m)
                                              (groupMessages d)))\<rparr>))
         \<and> groupHasMinimumData d g =
             Inr (int (length (filter (\<lambda>m. g_groupId m = g \<and> \<not> g_isAIGenerated m) (groupMessages d)))
                  \<ge> 20)"
  using assms
  by (simp add: getGroupStyleProfile_stored groupHasMinimumData_def GROUP_MINIMUM_MESSAGES_REQUIRED_def
      groupEligibleCount_def eligibleGroupMessages_def)

theorem C9_group_profile_live_count_witness:
  "reachable mixedGroupDb
   \<and> length (groupMessages mixedGroupDb) = 22
   \<and> length (filter (\<lambda>m. g_groupId m = ''g1'') (groupMessages mixedGroupDb)) = 20
   \<and> length (filter (\<lambda>m. \<not> g_isAIGenerated m) (groupMessages mixedGroupDb)) = 21
   \<and> storedGroupProfile mixedGroupDb ''g1'' = Some (groupProfileOf ''g1'' 3 (Some ''Be loud.''))
   \<and> getGroupStyleProfile mixedGroupDb ''g1'' = Inr (Some (groupProfileOf ''g1'' 19 (Some ''Be loud.'')))
   \<and> groupHasMinimumData mixedGroupDb ''g1'' = Inr False"
proof -
  have r: "reachable mixedGroupDb"
    by (simp add: mixedGroupDb_def sampleDb_def)
  have s: "storedGroupProfile mixedGroupDb ''g1'' = Some (groupProfileOf ''g1'' 3 (Some ''Be loud.''))"
    by (simp add: storedGroupProfile_def mixedGroupDb_def groupProfileOf_def)
  have n: "int (length (filter (\<lambda>m. g_groupId m = ''g1'' \<and> \<not> g_isAIGenerated m)
                               (groupMessages mixedGroupDb))) = 19"
    by (simp add: mixedGroupDb_def postedIn_def)
  have t: "length (groupMessages mixedGroupDb) = 22"
    "length (filter (\<lambda>m. g_groupId m = ''g1'') (groupMessages mixedGroupDb)) = 20"
    "length (filter (\<lambda>m. \<not> g_isAIGenerated m) (groupMessages mixedGroupDb)) = 21"
    by (simp_all add: mixedGroupDb_def postedIn_def)
  from C9_group_profile_live_count[OF r s] have
    "getGroupStyleProfile mixedGroupDb ''g1'' = Inr (Some (groupProfileOf ''g1'' 19 (Some ''Be loud.'')))"
    "groupHasMinimumData mixedGroupDb ''g1'' = Inr False"
    by (simp_all only: n) (simp_all add: groupProfileOf_def)
  with r s t show ?thesis by simp
qed

text \<open>
  \<^bold>\<open>C10\<close>. When the store handle is \<^verbatim>\<open>null\<close>, registering and deregistering change
  nothing, every lookup answers absent, every user is offline after any sequence of
  events, \<^verbatim>\<open>emitToUser\<close> returns false and emits nothing, and a connection with a
  valid session is still admitted and announced.
\<close>

theorem C10_unconfigured_registry_is_silent:
  "setUserOnline None u s = None \<and> setUserOffline None u = None
   \<and> isUserOnline None u = False \<and> getSocketByUser None u = None \<and> getUserBySocket None s = None
   \<and> isUserOnline (apply_events None es) u = False
   \<and> emitToUser (w\<lparr>redis := None\<rparr>) u event data = (w\<lparr>redis := None\<rparr>, False)
   \<and> handleConnection (w\<lparr>redis := None\<rparr>) c (Some u) =
        (emit (w\<lparr>redis := None\<rparr>) Broadcast ''user:status'' (StatusP u ''online''), c\<lparr>data_userId := Some u\<rparr>)
   \<and> redis_constructor None token client = None \<and> redis_constructor url None client = None"
  by (simp add: setUserOnline_def setUserOffline_def isUserOnline_def getSocketByUser_def getUserBySocket_def
      apply_events_None emitToUser_def handleConnection_def redis_constructor_def)

theorem C10_unconfigured_registry_is_silent_witness:
  "isUserOnline (apply_events None [Register ''alice'' ''sA'']) ''alice'' = False
   \<and> emitToUser ((sampleWorld sampleDb)\<lparr>redis := None\<rparr>) ''alice'' ''message:receive'' (ErrorP []) =
       ((sampleWorld sampleDb)\<lparr>redis := None\<rparr>, False)
   \<and> outbox (fst (handleConnection ((sampleWorld sampleDb)\<lparr>redis := None\<rparr>) aliceClient (Some ''alice'')))
       = [Emit Broadcast ''user:status'' (StatusP ''alice'' ''online'')]"
  using C10_unconfigured_registry_is_silent
          [of "''alice''" "''sA''" "[Register ''alice'' ''sA'']" "sampleWorld sampleDb" "''message:receive''"
              "ErrorP []" aliceClient]
  by (simp add: sampleWorld_def)

end
